theory Spec2Isabelle
  imports Complex_Main
begin

section \<open>TokenUsage: the token and cost accumulator\<close>

text \<open>
  The dataclass \<open>TokenUsage\<close> of \<open>massgen/v2/agent_backend.py\<close>. Python's unbounded
  \<open>int\<close> is \<open>int\<close>. Python's \<open>float\<close> is idealised as \<open>real\<close> in \<open>add_usage\<close> and in
  \<open>calculate_cost\<close>: rounding, infinities and NaN are not modelled there. The value of
  the cost total is stated with \<open>add_usage_by\<close> below, which leaves the addition of floats
  open.
\<close>

record TokenUsage =
  input_tokens :: int
  output_tokens :: int
  estimated_cost :: real
  model :: "string option"
  provider :: "string option"
  timestamp :: "real option"

text \<open>\<open>__post_init__\<close>: the timestamp is set to \<open>time.time()\<close> (the argument \<open>now\<close>) when
  none was given.\<close>

definition post_init :: "real \<Rightarrow> TokenUsage \<Rightarrow> TokenUsage" where
  "post_init now u = (if timestamp u = None then u\<lparr>timestamp := Some now\<rparr> else u)"

text \<open>\<open>TokenUsage()\<close>: the dataclass defaults, then \<open>__post_init__\<close>.\<close>

definition TokenUsage_new :: "real \<Rightarrow> TokenUsage" where
  "TokenUsage_new now =
     post_init now \<lparr>input_tokens = 0, output_tokens = 0, estimated_cost = 0,
       model = None, provider = None, timestamp = None\<rparr>"

definition add_usage :: "TokenUsage \<Rightarrow> int \<Rightarrow> int \<Rightarrow> real \<Rightarrow> TokenUsage" where
  "add_usage u inp outp cost =
     u\<lparr>input_tokens := input_tokens u + inp,
       output_tokens := output_tokens u + outp,
       estimated_cost := estimated_cost u + cost\<rparr>"

definition get_total_tokens :: "TokenUsage \<Rightarrow> int" where
  "get_total_tokens u = input_tokens u + output_tokens u"

text \<open>A finite sequence of \<open>add_usage\<close> calls on one instance, in call order; each call is
  its argument triple.\<close>

definition add_usage_calls :: "TokenUsage \<Rightarrow> (int \<times> int \<times> real) list \<Rightarrow> TokenUsage" where
  "add_usage_calls u calls = foldl (\<lambda>v (i, o', c). add_usage v i o' c) u calls"

subsection \<open>The float addition of the cost\<close>

text \<open>
  \<open>self.estimated_cost += cost\<close> adds two floats, and the float addition rounds. Where the
  value of the total matters, \<open>add_usage_by\<close> is \<open>add_usage\<close> with the addition of the cost
  as a parameter; \<open>add_usage\<close> is its instance with the exact addition.
\<close>

definition add_usage_by ::
  "(real \<Rightarrow> real \<Rightarrow> real) \<Rightarrow> TokenUsage \<Rightarrow> int \<Rightarrow> int \<Rightarrow> real \<Rightarrow> TokenUsage" where
  "add_usage_by fadd u inp outp cost =
     u\<lparr>input_tokens := input_tokens u + inp,
       output_tokens := output_tokens u + outp,
       estimated_cost := fadd (estimated_cost u) cost\<rparr>"

definition add_usage_calls_by ::
  "(real \<Rightarrow> real \<Rightarrow> real) \<Rightarrow> TokenUsage \<Rightarrow> (int \<times> int \<times> real) list \<Rightarrow> TokenUsage" where
  "add_usage_calls_by fadd u calls =
     foldl (\<lambda>v (i, o', c). add_usage_by fadd v i o' c) u calls"

text \<open>The addition of Python's \<open>float\<close> (IEEE 754 binary64) on finite values: the exact sum
  rounded to 53 significant bits, to nearest, ties to even. Overflow and subnormal
  results are not modelled.\<close>

definition round_half_even :: "real \<Rightarrow> int" where
  "round_half_even x =
     (let f = \<lfloor>x\<rfloor> in
      if x - of_int f < 1 / 2 then f
      else if 1 / 2 < x - of_int f then f + 1
      else if even f then f else f + 1)"

definition double_round :: "real \<Rightarrow> real" where
  "double_round x =
     (if x = 0 then 0
      else (let e = \<lfloor>log 2 \<bar>x\<bar>\<rfloor> - 52
            in of_int (round_half_even (x / 2 powr of_int e)) * 2 powr of_int e))"

definition double_add :: "real \<Rightarrow> real \<Rightarrow> real" where
  "double_add x y = double_round (x + y)"

section \<open>ChatCompletionsBackend.estimate_tokens\<close>

text \<open>\<open>len(text) // 4\<close>. A Python string is a sequence of code points; only its length is
  used, so the character type is left open.\<close>

definition estimate_tokens :: "'c list \<Rightarrow> int" where
  "estimate_tokens text = int (length text) div 4"

section \<open>Python values the backend handles\<close>

text \<open>Exceptions are values. \<open>OtherError\<close> stands for any other subclass of \<open>Exception\<close>
  (a network error, a provider rejection, a malformed response), with its \<open>str()\<close>.
  \<open>BaseException\<close>s that are not \<open>Exception\<close>s (task cancellation, \<open>KeyboardInterrupt\<close>)
  are outside the model.\<close>

datatype exception =
  KeyError string
| ValueError string
| ImportError string
| OtherError string

text \<open>\<open>str(e)\<close>. For a \<open>KeyError\<close> it is the \<open>repr\<close> of the key: the key between single
  quotes (the keys raised here hold no quote or escape).\<close>

fun py_str :: "exception \<Rightarrow> string" where
  "py_str (KeyError k) = [CHR 0x27] @ k @ [CHR 0x27]"
| "py_str (ValueError m) = m"
| "py_str (ImportError m) = m"
| "py_str (OtherError m) = m"

definition startswith :: "string \<Rightarrow> string \<Rightarrow> bool" where
  "startswith s p = (take (length p) s = p)"

definition endswith :: "string \<Rightarrow> string \<Rightarrow> bool" where
  "endswith s p = (length p \<le> length s \<and> drop (length s - length p) s = p)"

text \<open>\<open>s.replace(old, new)\<close>: every occurrence of \<open>old\<close>, found from the left without
  overlap, is replaced.\<close>

function replace :: "string \<Rightarrow> string \<Rightarrow> string \<Rightarrow> string" where
  "replace [] old new = (if old = [] then new else [])"
| "replace (c # cs) old new =
     (if old = [] then new @ c # replace cs old new
      else if take (length old) (c # cs) = old
        then new @ replace (drop (length old) (c # cs)) old new
      else c # replace cs old new)"
  by pat_completeness auto
termination
  by (relation "measure (\<lambda>(s, old, new). length s)") (auto simp: neq_Nil_conv)

text \<open>\<open>s.lower()\<close> on the ASCII letters. (No string with a character outside ASCII
  lower-cases to \<open>openai\<close>, the only string that \<open>lower\<close> is compared with.)\<close>

definition lower_char :: "char \<Rightarrow> char" where
  "lower_char c =
     (let n = (of_char c :: nat) in if 65 \<le> n \<and> n \<le> 90 then char_of (n + 32) else c)"

definition lower :: "string \<Rightarrow> string" where
  "lower s = map lower_char s"

text \<open>A value of type \<open>Any\<close> in a tool descriptor: a string, a dict (its items, with distinct
  keys), or anything else.\<close>

datatype pyval =
  PStr string
| PDict "(string \<times> pyval) list"
| POther

text \<open>A conversation message, \<open>Dict[str, Any]\<close>; the values read here (\<open>role\<close>,
  \<open>content\<close>) are strings.\<close>

type_synonym message = "string \<rightharpoonup> string"

section \<open>StreamChunk\<close>

text \<open>Modelled from the spec: the class \<open>StreamChunk\<close> is imported from
  \<open>massgen/v2/chat_agent.py\<close>, which is not among the sources. Spec section 3 gives its
  fields: \<open>type\<close> (the discriminant), \<open>content\<close>, \<open>error\<close>, \<open>source\<close> and \<open>status\<close>; a field
  not passed to the constructor is \<open>None\<close>.\<close>

record StreamChunk =
  type :: string
  content :: "string option"
  error :: "string option"
  source :: "string option"
  status :: "string option"

section \<open>OpenAIResponseBackend\<close>

text \<open>The keyword arguments kept in \<open>self.config\<close>, as far as the backend reads them.\<close>

record config =
  cfg_model :: "string option"
  api_key :: "string option"
  temperature :: "real option"
  max_tokens :: "int option"

text \<open>The parameters handed to \<open>client.responses.create\<close>: a key that the code does not set
  is \<open>None\<close>. \<open>p_reasoning\<close> is the \<open>effort\<close> of the \<open>reasoning\<close> entry.\<close>

record params =
  p_model :: string
  p_stream :: bool
  p_instructions :: "string option"
  p_input :: "message list"
  p_tools :: "pyval list option"
  p_temperature :: "real option"
  p_max_output_tokens :: "int option"
  p_reasoning :: "string option"

text \<open>An event of the provider's stream, as the loop reads it: an attribute that the
  object lacks is \<open>None\<close>. The stream delivers its events in order and then either ends or
  raises.\<close>

record usage =
  u_input_tokens :: "int option"
  u_output_tokens :: "int option"

record event =
  ev_type :: "string option"
  ev_delta :: "string option"
  ev_usage :: "usage option"

datatype response = Response "event list" "exception option"

text \<open>What lies outside the program: the process environment, Python's \<open>float()\<close> on a
  string (\<open>Inl\<close> the message of its \<open>ValueError\<close>), whether \<open>openai\<close> can be imported, the
  clock, and the provider call itself.\<close>

record world =
  getenv :: "string \<Rightarrow> string option"
  py_float :: "string \<Rightarrow> string + real"
  openai_importable :: bool
  time_now :: real
  responses_create :: "params \<Rightarrow> exception + response"

text \<open>The backend object: \<open>self.config\<close>, \<open>self.token_usage\<close> and \<open>self.model\<close> (named
  \<open>self_model\<close> here, \<open>model\<close> being a field of \<open>TokenUsage\<close>). \<open>self.client\<close> is the
  \<open>responses_create\<close> of the world.\<close>

record OpenAIResponseBackend =
  config :: config
  token_usage :: TokenUsage
  self_model :: string

text \<open>\<open>__init__\<close>. The \<open>ValueError\<close> is raised inside the \<open>try\<close>, whose handler catches
  \<open>ImportError\<close> only. The constructor of the client, \<open>AsyncOpenAI\<close>, is taken to
  return.\<close>

definition OpenAIResponseBackend_init :: "world \<Rightarrow> config \<Rightarrow> exception + OpenAIResponseBackend" where
  "OpenAIResponseBackend_init w cfg =
     (let self = \<lparr>config = cfg, token_usage = TokenUsage_new (time_now w),
                  self_model = (case cfg_model cfg of None \<Rightarrow> ''gpt-4o'' | Some m \<Rightarrow> m)\<rparr>
      in if \<not> openai_importable w
           then Inl (ImportError ''OpenAI package not installed. Install with: pip install openai'')
         else
           (let api_key_val =
                  (case api_key cfg of
                     Some k \<Rightarrow> if k \<noteq> [] then Some k else getenv w ''OPENAI_API_KEY''
                   | None \<Rightarrow> getenv w ''OPENAI_API_KEY'')
            in if api_key_val = None \<or> api_key_val = Some [] then Inl (ValueError ''OpenAI API key not found'')
               else Inr self))"

definition get_provider_name :: "OpenAIResponseBackend \<Rightarrow> string" where
  "get_provider_name self = ''openai''"

text \<open>\<open>create_backend(provider, model, **kwargs)\<close>: \<open>model\<close> is a named parameter, so
  \<open>kwargs\<close> holds no \<open>model\<close> key and the constructor receives the one given.\<close>

definition create_backend :: "world \<Rightarrow> string \<Rightarrow> string \<Rightarrow> config \<Rightarrow> exception + OpenAIResponseBackend" where
  "create_backend w provider_name model_name kwargs =
     (if lower provider_name = ''openai''
        then OpenAIResponseBackend_init w (kwargs\<lparr>cfg_model := Some model_name\<rparr>)
      else Inl (ValueError (''Unsupported provider: '' @ provider_name)))"

subsection \<open>Preparing the provider call\<close>

text \<open>\<open>_format_tools_for_response_api\<close>: a tool that is not a dict is dropped; the built-in
  code interpreter gets its container; every other dict is passed on as it is.\<close>

fun format_tool :: "pyval \<Rightarrow> pyval list" where
  "format_tool (PDict items) =
     (if map_of items ''type'' = Some (PStr ''function'') then [PDict items]
      else if items = [(''type'', PStr ''web_search_preview'')]
        then [PDict [(''type'', PStr ''web_search_preview'')]]
      else if items = [(''type'', PStr ''code_interpreter'')]
        then [PDict [(''type'', PStr ''code_interpreter''),
                     (''container'', PDict [(''type'', PStr ''auto'')])]]
      else [PDict items])"
| "format_tool t = []"

definition format_tools_for_response_api :: "pyval list \<Rightarrow> pyval list" where
  "format_tools_for_response_api tools = concat (map format_tool tools)"

text \<open>The loop over the messages: the last system message gives the instructions, the
  other messages are the input. \<open>message["content"]\<close> raises \<open>KeyError\<close> on a system
  message without content.\<close>

fun split_messages :: "message list \<Rightarrow> string \<Rightarrow> message list \<Rightarrow> exception + string \<times> message list" where
  "split_messages [] instructions input_messages = Inr (instructions, input_messages)"
| "split_messages (m # ms) instructions input_messages =
     (if m ''role'' = Some ''system''
        then (case m ''content'' of
                None \<Rightarrow> Inl (KeyError ''content'')
              | Some c \<Rightarrow> split_messages ms c input_messages)
      else split_messages ms instructions (input_messages @ [m]))"

text \<open>The reasoning effort of an o-series model and the model name sent with it.\<close>

definition reasoning_effort :: "string \<Rightarrow> string \<times> string" where
  "reasoning_effort m =
     (if endswith m ''-low'' then (''low'', replace m ''-low'' [])
      else if endswith m ''-medium'' then (''medium'', replace m ''-medium'' [])
      else if endswith m ''-high'' then (''high'', replace m ''-high'' [])
      else (''low'', m))"

definition build_params ::
  "OpenAIResponseBackend \<Rightarrow> message list \<Rightarrow> pyval list option \<Rightarrow> exception + params" where
  "build_params self messages tools =
     (case split_messages messages [] [] of
        Inl e \<Rightarrow> Inl e
      | Inr (instructions, input_messages) \<Rightarrow>
          (let m = self_model self;
               formatted_tools =
                 (case tools of
                    None \<Rightarrow> []
                  | Some ts \<Rightarrow> if ts = [] then [] else format_tools_for_response_api ts)
           in Inr \<lparr>p_model = (if startswith m ''o'' then snd (reasoning_effort m) else m),
                   p_stream = True,
                   p_instructions = (if instructions \<noteq> [] then Some instructions else None),
                   p_input = input_messages,
                   p_tools = (if formatted_tools \<noteq> [] then Some formatted_tools else None),
                   p_temperature =
                     (if startswith m ''o'' then None else temperature (config self)),
                   p_max_output_tokens = max_tokens (config self),
                   p_reasoning =
                     (if startswith m ''o'' then Some (fst (reasoning_effort m)) else None)\<rparr>))"

subsection \<open>calculate_cost\<close>

text \<open>The pricing table, per 1000 tokens: input rate and output rate.\<close>

definition pricing :: "(string \<times> real \<times> real) list" where
  "pricing =
     [(''gpt-4o'', 25 / 10000, 1 / 100),
      (''gpt-4o-mini'', 15 / 100000, 6 / 10000),
      (''gpt-4'', 3 / 100, 6 / 100),
      (''gpt-3.5-turbo'', 1 / 1000, 2 / 1000),
      (''o1'', 15 / 1000, 6 / 100),
      (''o1-mini'', 3 / 1000, 12 / 1000),
      (''o3-mini'', 3 / 1000, 12 / 1000)]"

text \<open>The base model name: the first of the suffixes that ends the name is removed
  (wherever it occurs), then the loop breaks.\<close>

fun strip_suffix :: "string \<Rightarrow> string list \<Rightarrow> string" where
  "strip_suffix base_model [] = base_model"
| "strip_suffix base_model (suffix # rest) =
     (if endswith base_model suffix then replace base_model suffix []
      else strip_suffix base_model rest)"

text \<open>\<open>float(os.getenv(name, fallback))\<close>.\<close>

definition env_rate :: "world \<Rightarrow> string \<Rightarrow> string \<Rightarrow> exception + real" where
  "env_rate w name fallback =
     (case py_float w (case getenv w name of None \<Rightarrow> fallback | Some v \<Rightarrow> v) of
        Inl msg \<Rightarrow> Inl (ValueError msg)
      | Inr r \<Rightarrow> Inr r)"

text \<open>For a model outside the table the rates come from the environment; the warning is
  reported, not raised (Python's default warning filter).\<close>

definition calculate_cost :: "world \<Rightarrow> int \<Rightarrow> int \<Rightarrow> string \<Rightarrow> exception + real" where
  "calculate_cost w inp outp model_name =
     (case map_of pricing (strip_suffix model_name [''-low'', ''-medium'', ''-high'']) of
        Some (input_rate, output_rate) \<Rightarrow>
          Inr ((real_of_int inp / 1000) * input_rate + (real_of_int outp / 1000) * output_rate)
      | None \<Rightarrow>
          (case env_rate w ''FALLBACK_INPUT_RATE'' ''0.0025'' of
             Inl e \<Rightarrow> Inl e
           | Inr fallback_input_rate \<Rightarrow>
               (case env_rate w ''FALLBACK_OUTPUT_RATE'' ''0.01'' of
                  Inl e \<Rightarrow> Inl e
                | Inr fallback_output_rate \<Rightarrow>
                    Inr ((real_of_int inp / 1000) * fallback_input_rate
                         + (real_of_int outp / 1000) * fallback_output_rate))))"

subsection \<open>stream_with_tools\<close>

text \<open>The variables of the streaming loop, with the accumulator of the backend and the
  chunks yielded so far.\<close>

record loop_state =
  l_text_content :: string
  l_input_tokens :: int
  l_output_tokens :: int
  l_token_usage :: TokenUsage
  l_yielded :: "StreamChunk list"

definition content_chunk :: "string \<Rightarrow> StreamChunk" where
  "content_chunk d =
     \<lparr>type = ''content'', content = Some d, error = None, source = Some ''openai'', status = None\<rparr>"

definition tool_calls_chunk :: "string option \<Rightarrow> StreamChunk" where
  "tool_calls_chunk d =
     \<lparr>type = ''tool_calls'', content = d, error = None, source = Some ''openai'', status = None\<rparr>"

definition done_chunk :: StreamChunk where
  "done_chunk =
     \<lparr>type = ''done'', content = None, error = None, source = Some ''openai'',
      status = Some ''completed''\<rparr>"

definition error_chunk :: "exception \<Rightarrow> StreamChunk" where
  "error_chunk e =
     \<lparr>type = ''error'', content = None, error = Some (py_str e), source = Some ''openai'',
      status = None\<rparr>"

text \<open>The token counts read at a completion event: from its usage metadata, each \<open>0\<close> when
  the metadata lacks it; the loop variables as they stand when the event has no usage.\<close>

definition read_usage :: "loop_state \<Rightarrow> event \<Rightarrow> int \<times> int" where
  "read_usage st ev =
     (case ev_usage ev of
        None \<Rightarrow> (l_input_tokens st, l_output_tokens st)
      | Some u \<Rightarrow>
          (case u_input_tokens u of None \<Rightarrow> 0 | Some n \<Rightarrow> n,
           case u_output_tokens u of None \<Rightarrow> 0 | Some n \<Rightarrow> n))"

text \<open>One turn of \<open>async for chunk in response\<close>.\<close>

definition on_chunk :: "world \<Rightarrow> string \<Rightarrow> loop_state \<Rightarrow> event \<Rightarrow> exception + loop_state" where
  "on_chunk w m st ev =
     (case ev_type ev of
        None \<Rightarrow> Inr st
      | Some t \<Rightarrow>
          if t = ''response.output_text.delta'' then
            (case ev_delta ev of
               None \<Rightarrow> Inr st
             | Some d \<Rightarrow>
                 if d = [] then Inr st
                 else Inr (st\<lparr>l_text_content := l_text_content st @ d,
                              l_yielded := l_yielded st @ [content_chunk d]\<rparr>))
          else if t = ''response.function_call_output.delta'' then
            Inr (st\<lparr>l_yielded := l_yielded st @ [tool_calls_chunk (ev_delta ev)]\<rparr>)
          else if t = ''response.completed'' then
            (case read_usage st ev of
               (inp, outp) \<Rightarrow>
                 (case calculate_cost w inp outp m of
                    Inl e \<Rightarrow> Inl e
                  | Inr cost \<Rightarrow>
                      Inr (st\<lparr>l_input_tokens := inp,
                              l_output_tokens := outp,
                              l_token_usage := add_usage (l_token_usage st) inp outp cost,
                              l_yielded := l_yielded st @ [done_chunk]\<rparr>)))
          else Inr st)"

text \<open>The loop: it stops at the first exception, keeping the state reached.\<close>

fun consume :: "world \<Rightarrow> string \<Rightarrow> event list \<Rightarrow> loop_state \<Rightarrow> loop_state \<times> exception option" where
  "consume w m [] st = (st, None)"
| "consume w m (ev # evs) st =
     (case on_chunk w m st ev of
        Inl e \<Rightarrow> (st, Some e)
      | Inr st' \<Rightarrow> consume w m evs st')"

definition initial_state :: "TokenUsage \<Rightarrow> loop_state" where
  "initial_state u =
     \<lparr>l_text_content = [], l_input_tokens = 0, l_output_tokens = 0, l_token_usage = u,
      l_yielded = []\<rparr>"

text \<open>The body of the \<open>try\<close>: the chunks it yields, the accumulator after it, and the
  exception that ended it, if one did.\<close>

definition try_block ::
  "world \<Rightarrow> OpenAIResponseBackend \<Rightarrow> message list \<Rightarrow> pyval list option
     \<Rightarrow> (StreamChunk list \<times> TokenUsage) \<times> exception option" where
  "try_block w self messages tools =
     (case build_params self messages tools of
        Inl e \<Rightarrow> (([], token_usage self), Some e)
      | Inr ps \<Rightarrow>
          (case responses_create w ps of
             Inl e \<Rightarrow> (([], token_usage self), Some e)
           | Inr (Response events raised) \<Rightarrow>
               (case consume w (self_model self) events (initial_state (token_usage self)) of
                  (st, Some e) \<Rightarrow> ((l_yielded st, l_token_usage st), Some e)
                | (st, None) \<Rightarrow> ((l_yielded st, l_token_usage st), raised))))"

text \<open>The generator, consumed to its end: all the chunks it yields, in order, and the
  backend after it. The handler of the \<open>try\<close> yields one \<open>error\<close> chunk and the generator
  ends.\<close>

definition stream_with_tools ::
  "world \<Rightarrow> OpenAIResponseBackend \<Rightarrow> message list \<Rightarrow> pyval list option
     \<Rightarrow> StreamChunk list \<times> OpenAIResponseBackend" where
  "stream_with_tools w self messages tools =
     (case try_block w self messages tools of
        ((chunks, u), None) \<Rightarrow> (chunks, self\<lparr>token_usage := u\<rparr>)
      | ((chunks, u), Some e) \<Rightarrow> (chunks @ [error_chunk e], self\<lparr>token_usage := u\<rparr>))"

section \<open>The agent timeout scenario\<close>

text \<open>
  \<open>massgen/tests/test_timeout.py\<close> drives \<open>Orchestrator\<close>, \<open>SingleAgent\<close> and \<open>TimeoutConfig\<close>,
  none of which is among the sources. They are modelled here from the specification,
  sections 3, 4.1, 4.2 and 4.3. Wall-clock time is data: every chunk comes with the
  seconds elapsed, since the scope started, when it is received, and the end of a stream
  with the seconds elapsed when it ends.
\<close>

text \<open>Modelled from the spec: \<open>TimeoutConfig\<close> (section 3), the recognised options.\<close>

record TimeoutConfig =
  agent_timeout_seconds :: real
  agent_max_tokens :: nat
  orchestrator_timeout_seconds :: real
  orchestrator_max_tokens :: nat
  enable_timeout_fallback :: bool

text \<open>The configuration that \<open>test_agent_timeout\<close> builds.\<close>

definition test_agent_timeout_config :: TimeoutConfig where
  "test_agent_timeout_config =
     \<lparr>agent_timeout_seconds = 10, agent_max_tokens = 1000,
      orchestrator_timeout_seconds = 600, orchestrator_max_tokens = 1000,
      enable_timeout_fallback = True\<rparr>"

text \<open>Modelled from the spec: the Budget Tracker (section 4.1),
  \<open>check(elapsed_seconds, tokens_consumed, limits) -> {ok | exceeded(kind)}\<close>: the time limit
  is exceeded when the elapsed time exceeds the timeout, the token limit when the
  cumulative tokens exceed the maximum.\<close>

datatype kind = Time | Tokens

datatype budget = Ok | Exceeded kind

definition check :: "real \<Rightarrow> nat \<Rightarrow> real \<times> nat \<Rightarrow> budget" where
  "check elapsed_seconds tokens_consumed limits =
     (if fst limits < elapsed_seconds then Exceeded Time
      else if snd limits < tokens_consumed then Exceeded Tokens
      else Ok)"

text \<open>Modelled from the spec: a chunk as a scope receives it, with the two quantities
  that the Budget Tracker is asked about: the seconds elapsed since the scope started and
  the tokens that the chunk contributes.\<close>

record arrival =
  a_elapsed :: real
  a_tokens :: nat
  a_chunk :: StreamChunk

text \<open>Modelled from the spec: a sequence of chunks ends by itself, or the budget is
  exceeded without the fallback and the failure \<open>propagates as a hard failure that
  terminates the run\<close> (section 4.1), after the chunks already emitted.\<close>

datatype 'a ending = Ended "'a list" | Fatal "'a list"

fun emit :: "'a \<Rightarrow> 'a ending \<Rightarrow> 'a ending" where
  "emit x (Ended xs) = Ended (x # xs)"
| "emit x (Fatal xs) = Fatal (x # xs)"

text \<open>Modelled from the spec: on exceed with the fallback enabled \<open>a terminal chunk is
  synthesized (type error, message containing "time limit exceeded")\<close> (section 4.1), and
  the agent then emits \<open>a done chunk with a degraded-completion status\<close> (section 4.2).\<close>

definition time_limit_error :: "string \<Rightarrow> real \<Rightarrow> arrival" where
  "time_limit_error scope t =
     \<lparr>a_elapsed = t, a_tokens = 0,
      a_chunk = \<lparr>type = ''error'', content = None, error = Some ''time limit exceeded'',
                 source = Some scope, status = None\<rparr>\<rparr>"

definition done_with_status :: "string \<Rightarrow> string \<Rightarrow> StreamChunk" where
  "done_with_status scope st =
     \<lparr>type = ''done'', content = None, error = None, source = Some scope, status = Some st\<rparr>"

text \<open>Modelled from the spec: how the stream of a backend is over, as the agent in front
  of it sees it. \<open>None\<close>: the backend never finishes (it stays silent after its last chunk).
  \<open>Some (t, None)\<close>: the stream ends after \<open>t\<close> seconds. \<open>Some (t, Some msg)\<close>: the backend
  raises after \<open>t\<close> seconds, with message \<open>msg\<close>.\<close>

type_synonym stream_end = "(real \<times> string option) option"

text \<open>Modelled from the spec: the cut-off of the agent on exceed (sections 4.1 and 4.2).
  The agent \<open>truncates the backend stream (does not wait for it to finish)\<close>: when the
  time limit is exceeded the cut-off happens as the limit passes, not when the backend
  is next heard of.\<close>

definition cut_off :: "TimeoutConfig \<Rightarrow> string \<Rightarrow> kind \<Rightarrow> real \<Rightarrow> arrival ending" where
  "cut_off cfg agent k t =
     (let moment = (case k of Time \<Rightarrow> agent_timeout_seconds cfg | Tokens \<Rightarrow> t)
      in if enable_timeout_fallback cfg
           then Ended [time_limit_error agent moment,
                       \<lparr>a_elapsed = moment, a_tokens = 0,
                        a_chunk = done_with_status agent ''degraded''\<rparr>]
         else Fatal [])"

text \<open>Modelled from the spec: \<open>SingleAgent.respond\<close> (section 4.2). The chunks of the backend
  are forwarded; the budget of the agent is \<open>checked after each received chunk, not only
  at stream end\<close>, and the agent does not wait for a backend that never finishes; on
  exceed the stream of the backend is truncated and, with the fallback, an \<open>error\<close> chunk
  and a \<open>done\<close> chunk with degraded status are emitted (\<open>an error chunk mentioning a
  time-limit condition is relayed before that agent's done\<close>, section 8); without the
  fallback the failure is hard. A failure raised by the backend within the budget becomes
  a single \<open>error\<close> chunk that ends the sequence.\<close>

fun respond ::
  "TimeoutConfig \<Rightarrow> string \<Rightarrow> nat \<Rightarrow> arrival list \<Rightarrow> stream_end \<Rightarrow> arrival ending" where
  "respond cfg agent used [] ends =
     (case ends of
        None \<Rightarrow> cut_off cfg agent Time (agent_timeout_seconds cfg)
      | Some (t, failure) \<Rightarrow>
          (case check t used (agent_timeout_seconds cfg, agent_max_tokens cfg) of
             Exceeded k \<Rightarrow> cut_off cfg agent k t
           | Ok \<Rightarrow>
               (case failure of
                  None \<Rightarrow> Ended []
                | Some msg \<Rightarrow>
                    Ended [\<lparr>a_elapsed = t, a_tokens = 0,
                            a_chunk = \<lparr>type = ''error'', content = None, error = Some msg,
                                       source = Some agent, status = None\<rparr>\<rparr>])))"
| "respond cfg agent used (a # rest) ends =
     (case check (a_elapsed a) (used + a_tokens a)
             (agent_timeout_seconds cfg, agent_max_tokens cfg) of
        Exceeded k \<Rightarrow> cut_off cfg agent k (a_elapsed a)
      | Ok \<Rightarrow> emit a (respond cfg agent (used + a_tokens a) rest ends))"

text \<open>Modelled from the spec: the coordination loop of the \<open>Orchestrator\<close> (section 4.3),
  for a run with one agent, as the test builds it. Each chunk of the agent is relayed,
  tagged with the agent it comes from;
  after relaying the global token accumulator is updated and the global budget is checked
  again; on exceed the agent is cancelled and, with the fallback, a final \<open>error\<close> chunk
  (time limit exceeded at orchestrator scope) is synthesized. The \<open>done\<close> of the agent is
  its completion and is not relayed: exactly one terminal \<open>done\<close> chunk ends the merged
  stream, with a degraded status if the agent failed or was cut off or the global budget
  was exceeded. A hard failure of the agent (\<open>hard\<close>) terminates the run when it is
  reached.\<close>

definition tagged :: "string \<Rightarrow> StreamChunk \<Rightarrow> StreamChunk" where
  "tagged agent c = c\<lparr>source := Some agent\<rparr>"

fun coordinate ::
  "TimeoutConfig \<Rightarrow> string \<Rightarrow> nat \<Rightarrow> bool \<Rightarrow> arrival list \<Rightarrow> bool \<Rightarrow> StreamChunk ending" where
  "coordinate cfg agent used failed [] hard =
     (if hard then Fatal []
      else Ended [done_with_status ''orchestrator'' (if failed then ''failed'' else ''completed'')])"
| "coordinate cfg agent used failed (a # rest) hard =
     (if type (a_chunk a) = ''done''
        then Ended [done_with_status ''orchestrator''
                      (if status (a_chunk a) = Some ''completed'' \<and> \<not> failed then ''completed''
                       else ''degraded'')]
      else
        (case check (a_elapsed a) (used + a_tokens a)
                (orchestrator_timeout_seconds cfg, orchestrator_max_tokens cfg) of
           Exceeded k \<Rightarrow>
             if enable_timeout_fallback cfg
               then Ended [tagged agent (a_chunk a),
                           a_chunk (time_limit_error ''orchestrator'' (a_elapsed a)),
                           done_with_status ''orchestrator'' ''degraded'']
             else Fatal [tagged agent (a_chunk a)]
         | Ok \<Rightarrow>
             emit (tagged agent (a_chunk a))
               (coordinate cfg agent (used + a_tokens a) (failed \<or> type (a_chunk a) = ''error'')
                  rest hard)))"

text \<open>Modelled from the spec: \<open>Orchestrator.chat_simple\<close>, the merged output stream of the
  run of \<open>test_agent_timeout\<close>: one agent, \<open>test_agent\<close>, in front of a backend whose chunks
  arrive, and whose stream is over, as given. The chunks of the agent are consumed in order, up to its hard failure
  if it has one.\<close>

definition chat_simple ::
  "TimeoutConfig \<Rightarrow> arrival list \<Rightarrow> stream_end \<Rightarrow> StreamChunk ending" where
  "chat_simple cfg arrivals ends =
     (case respond cfg ''test_agent'' 0 arrivals ends of
        Ended out \<Rightarrow> coordinate cfg ''test_agent'' 0 False out False
      | Fatal out \<Rightarrow> coordinate cfg ''test_agent'' 0 False out True)"

text \<open>\<open>sub in s\<close> on strings.\<close>

fun contains :: "string \<Rightarrow> string \<Rightarrow> bool" where
  "contains [] sub = (sub = [])"
| "contains (c # cs) sub = (take (length sub) (c # cs) = sub \<or> contains cs sub)"

section \<open>Notions used in the statements\<close>

text \<open>The provider's completion event.\<close>

definition is_completed :: "event \<Rightarrow> bool" where
  "is_completed ev = (ev_type ev = Some ''response.completed'')"

text \<open>In the words of the specification: the input and output token counts of an event's
  usage metadata, each defaulting to \<open>0\<close> when absent. (The code's own reading is
  \<open>read_usage\<close>.)\<close>

definition usage_or_zero :: "event \<Rightarrow> int \<times> int" where
  "usage_or_zero ev =
     (case ev_usage ev of
        None \<Rightarrow> (0, 0)
      | Some u \<Rightarrow>
          (case u_input_tokens u of None \<Rightarrow> 0 | Some n \<Rightarrow> n,
           case u_output_tokens u of None \<Rightarrow> 0 | Some n \<Rightarrow> n))"

definition is_done :: "StreamChunk \<Rightarrow> bool" where
  "is_done c = (type c = ''done'')"

definition is_error :: "StreamChunk \<Rightarrow> bool" where
  "is_error c = (type c = ''error'')"

text \<open>A merged stream that holds an \<open>error\<close> chunk whose message contains \<open>time limit
  exceeded\<close>, followed by a \<open>done\<close> chunk with degraded status, which is its last chunk and
  its only \<open>done\<close> chunk.\<close>

definition error_then_degraded_done :: "StreamChunk list \<Rightarrow> bool" where
  "error_then_degraded_done out =
     (\<exists>relayed e mid d. out = relayed @ [e] @ mid @ [d]
        \<and> type e = ''error''
        \<and> (\<exists>msg. error e = Some msg \<and> contains msg ''time limit exceeded'')
        \<and> type d = ''done'' \<and> status d = Some ''degraded''
        \<and> (\<forall>c\<in>set (relayed @ [e] @ mid). type c \<noteq> ''done''))"

section \<open>Sample inputs\<close>

text \<open>A fragment of Python's \<open>float()\<close>: the two default rates parse, any other string
  raises.\<close>

definition sample_float :: "string \<Rightarrow> string + real" where
  "sample_float s =
     (if s = ''0.0025'' then Inr (25 / 10000)
      else if s = ''0.01'' then Inr (1 / 100)
      else Inl (''could not convert string to float: '' @ [CHR 0x27] @ s @ [CHR 0x27]))"

text \<open>A world with the given environment in which the provider call has the given
  outcome.\<close>

definition sample_world :: "(string \<Rightarrow> string option) \<Rightarrow> exception + response \<Rightarrow> world" where
  "sample_world environ outcome =
     \<lparr>getenv = environ, py_float = sample_float, openai_importable = True, time_now = 0,
      responses_create = (\<lambda>ps. outcome)\<rparr>"

text \<open>A backend for the given model, as \<open>create_backend\<close> makes it, with a fresh
  accumulator.\<close>

definition sample_backend :: "string \<Rightarrow> OpenAIResponseBackend" where
  "sample_backend m =
     \<lparr>config = \<lparr>cfg_model = Some m, api_key = Some ''sk-test'', temperature = None,
                max_tokens = None\<rparr>,
      token_usage = TokenUsage_new 0,
      self_model = m\<rparr>"

definition text_delta :: "string \<Rightarrow> event" where
  "text_delta d =
     \<lparr>ev_type = Some ''response.output_text.delta'', ev_delta = Some d, ev_usage = None\<rparr>"

definition completed :: "usage option \<Rightarrow> event" where
  "completed u = \<lparr>ev_type = Some ''response.completed'', ev_delta = None, ev_usage = u\<rparr>"

definition user_message :: "string \<Rightarrow> message" where
  "user_message q = [''role'' \<mapsto> ''user'', ''content'' \<mapsto> q]"

text \<open>A provider stream: two text deltas, then the completion event with its usage.\<close>

definition sample_events :: "event list" where
  "sample_events =
     [text_delta ''Hel'', text_delta ''lo'',
      completed (Some \<lparr>u_input_tokens = Some 1000, u_output_tokens = Some 2000\<rparr>)]"

text \<open>The parameters that \<open>build_params\<close> makes for \<open>sample_backend ''gpt-4o''\<close> and the
  one user message \<open>hi\<close>.\<close>

definition sample_params :: params where
  "sample_params =
     \<lparr>p_model = ''gpt-4o'', p_stream = True, p_instructions = None,
      p_input = [user_message ''hi''], p_tools = None, p_temperature = None,
      p_max_output_tokens = None, p_reasoning = None\<rparr>"

text \<open>No keyword argument besides the model.\<close>

definition no_kwargs :: config where
  "no_kwargs = \<lparr>cfg_model = None, api_key = None, temperature = None, max_tokens = None\<rparr>"

text \<open>A content chunk of the backend behind \<open>test_agent\<close>, received after \<open>t\<close> seconds
  and contributing \<open>n\<close> tokens; and the chunks of a backend that is still writing after
  eleven seconds.\<close>

definition content_arrival :: "real \<Rightarrow> nat \<Rightarrow> string \<Rightarrow> arrival" where
  "content_arrival t n d =
     \<lparr>a_elapsed = t, a_tokens = n,
      a_chunk = \<lparr>type = ''content'', content = Some d, error = None,
                 source = Some ''claude_code'', status = None\<rparr>\<rparr>"

definition slow_backend :: "arrival list" where
  "slow_backend =
     [content_arrival 2 100 ''The history'', content_arrival 7 300 '' of artificial'',
      content_arrival 11 50 '' intelligence'']"

section \<open>Properties of TokenUsage\<close>

lemma add_usage_calls_fields:
  "input_tokens (add_usage_calls u calls) = input_tokens u + sum_list (map fst calls)"
  "output_tokens (add_usage_calls u calls) = output_tokens u + sum_list (map (fst \<circ> snd) calls)"
  unfolding add_usage_calls_def
  by (induction calls arbitrary: u; simp add: add_usage_def split: prod.splits)+

text \<open>
  Claim C2 (as amended). The claim as written quantifies over every call of \<open>add_usage\<close>;
  the method adds its arguments unchecked, so a negative argument lowers a total. What
  holds: for every instance and every call whose three arguments are non-negative, each
  of \<open>input_tokens\<close>, \<open>output_tokens\<close> and \<open>estimated_cost\<close> after the call is at least its
  value before; and the only other method of the class that writes to the instance,
  \<open>__post_init__\<close>, leaves the three totals as they are.
\<close>

theorem add_usage_monotone:
  assumes "0 \<le> inp" and "0 \<le> outp" and "0 \<le> cost"
  shows "input_tokens u \<le> input_tokens (add_usage u inp outp cost)
       \<and> output_tokens u \<le> output_tokens (add_usage u inp outp cost)
       \<and> estimated_cost u \<le> estimated_cost (add_usage u inp outp cost)
       \<and> input_tokens (post_init now u) = input_tokens u
       \<and> output_tokens (post_init now u) = output_tokens u
       \<and> estimated_cost (post_init now u) = estimated_cost u"
  using assms by (simp add: add_usage_def post_init_def)

theorem add_usage_monotone_witness:
  "(0::int) \<le> 120 \<and> (0::int) \<le> 45 \<and> (0::real) \<le> 3 / 4
   \<and> input_tokens (add_usage (TokenUsage_new 0) 120 45 (3 / 4)) = 120
   \<and> input_tokens (TokenUsage_new 0) \<le> input_tokens (add_usage (TokenUsage_new 0) 120 45 (3 / 4))
   \<and> output_tokens (TokenUsage_new 0) \<le> output_tokens (add_usage (TokenUsage_new 0) 120 45 (3 / 4))
   \<and> estimated_cost (TokenUsage_new 0) \<le> estimated_cost (add_usage (TokenUsage_new 0) 120 45 (3 / 4))"
  using add_usage_monotone [of 120 45 "3 / 4" "TokenUsage_new 0" 0]
  by (simp add: add_usage_def TokenUsage_new_def post_init_def)

text \<open>
  Claim C2 as written fails: \<open>add_usage(-1, 0, 0.0)\<close> on a fresh accumulator leaves
  \<open>input_tokens\<close> at \<open>-1\<close>, below its value \<open>0\<close> before the call.
\<close>

theorem add_usage_negative_decreases:
  "input_tokens (add_usage (TokenUsage_new 0) (- 1) 0 0) = - 1
   \<and> input_tokens (TokenUsage_new 0) = 0
   \<and> \<not> input_tokens (TokenUsage_new 0) \<le> input_tokens (add_usage (TokenUsage_new 0) (- 1) 0 0)"
  by (simp add: add_usage_def TokenUsage_new_def post_init_def)

lemma add_usage_by_plus: "add_usage_by (+) u inp outp cost = add_usage u inp outp cost"
  by (simp add: add_usage_by_def add_usage_def)

lemma add_usage_calls_by_fields:
  "input_tokens (add_usage_calls_by fadd u calls) = input_tokens u + sum_list (map fst calls)"
  "output_tokens (add_usage_calls_by fadd u calls)
     = output_tokens u + sum_list (map (fst \<circ> snd) calls)"
  "estimated_cost (add_usage_calls_by fadd u calls)
     = foldl fadd (estimated_cost u) (map (snd \<circ> snd) calls)"
  unfolding add_usage_calls_by_def
  by (induction calls arbitrary: u; simp add: add_usage_by_def split: prod.splits)+

text \<open>
  Claim C4 (as amended). The claim as written equates \<open>estimated_cost\<close> with the sum of the
  cost arguments; the float addition rounds, so that fails. What holds, whatever the
  addition of floats does: after any finite sequence of \<open>add_usage\<close> calls \<open>input_tokens\<close> and
  \<open>output_tokens\<close> are their initial values plus the sums of the corresponding arguments,
  and \<open>estimated_cost\<close> is its initial value with the cost arguments added to it one after
  the other, in call order; on an accumulator made by \<open>TokenUsage()\<close> the initial values are
  zero, and replaying the same calls on another fresh accumulator (made at another time)
  gives the same three totals.
\<close>

theorem add_usage_calls_by_totals:
  "input_tokens (add_usage_calls_by fadd u calls) = input_tokens u + sum_list (map fst calls)
   \<and> output_tokens (add_usage_calls_by fadd u calls)
       = output_tokens u + sum_list (map (fst \<circ> snd) calls)
   \<and> estimated_cost (add_usage_calls_by fadd u calls)
       = foldl fadd (estimated_cost u) (map (snd \<circ> snd) calls)
   \<and> input_tokens (add_usage_calls_by fadd (TokenUsage_new now) calls) = sum_list (map fst calls)
   \<and> output_tokens (add_usage_calls_by fadd (TokenUsage_new now) calls)
       = sum_list (map (fst \<circ> snd) calls)
   \<and> estimated_cost (add_usage_calls_by fadd (TokenUsage_new now) calls)
       = foldl fadd 0 (map (snd \<circ> snd) calls)
   \<and> input_tokens (add_usage_calls_by fadd (TokenUsage_new now') calls)
       = input_tokens (add_usage_calls_by fadd (TokenUsage_new now) calls)
   \<and> output_tokens (add_usage_calls_by fadd (TokenUsage_new now') calls)
       = output_tokens (add_usage_calls_by fadd (TokenUsage_new now) calls)
   \<and> estimated_cost (add_usage_calls_by fadd (TokenUsage_new now') calls)
       = estimated_cost (add_usage_calls_by fadd (TokenUsage_new now) calls)"
proof -
  have fresh: "input_tokens (TokenUsage_new t) = 0 \<and> output_tokens (TokenUsage_new t) = 0
      \<and> estimated_cost (TokenUsage_new t) = 0" for t
    by (simp add: TokenUsage_new_def post_init_def)
  show ?thesis
    by (simp add: add_usage_calls_by_fields fresh)
qed

lemma floor_log2:
  assumes "2 ^ n \<le> x" and "x < 2 ^ Suc n"
  shows "\<lfloor>log 2 x\<rfloor> = int n"
proof -
  have "(0 :: real) < 2 ^ n" by simp
  with assms(1) have pos: "0 < x" by linarith
  have "real n \<le> log 2 x"
    using assms(1) pos by (simp add: le_log_iff powr_realpow)
  moreover have "log 2 x < real n + 1"
    using assms(2) pos by (simp add: log_less_iff powr_realpow powr_add)
  ultimately show ?thesis
    by (intro floor_unique) simp_all
qed

lemma double_round_1e16: "double_round 10000000000000000 = 10000000000000000"
proof -
  have fl: "\<lfloor>log 2 (10000000000000000 :: real)\<rfloor> = 53"
    using floor_log2 [of 53 10000000000000000] by simp
  have r: "round_half_even 5000000000000000 = 5000000000000000"
    by (simp add: round_half_even_def)
  show ?thesis
    by (simp add: double_round_def fl r)
qed

lemma double_round_1e16_1: "double_round 10000000000000001 = 10000000000000000"
proof -
  have fl: "\<lfloor>log 2 (10000000000000001 :: real)\<rfloor> = 53"
    using floor_log2 [of 53 10000000000000001] by simp
  have "\<lfloor>(10000000000000001 :: real) / 2\<rfloor> = 5000000000000000"
    by (intro floor_unique) simp_all
  then have r: "round_half_even (10000000000000001 / 2) = 5000000000000000"
    by (simp add: round_half_even_def)
  show ?thesis
    by (simp add: double_round_def fl r)
qed

text \<open>
  Claim C4 as written fails: on a fresh accumulator, \<open>add_usage(0, 0, 1e16)\<close> and then
  \<open>add_usage(0, 0, 1.0)\<close> leave \<open>estimated_cost\<close> at \<open>1e16\<close>, which is not the sum
  \<open>10000000000000001\<close> of the two cost arguments.
\<close>

theorem float_cost_is_not_the_sum:
  "estimated_cost (add_usage_calls_by double_add (TokenUsage_new 0)
       [(0, 0, 10000000000000000), (0, 0, 1)])
     = 10000000000000000
   \<and> sum_list (map (snd \<circ> snd) [(0 :: int, 0 :: int, 10000000000000000 :: real), (0, 0, 1)])
     = 10000000000000001
   \<and> estimated_cost (add_usage_calls_by double_add (TokenUsage_new 0)
       [(0, 0, 10000000000000000), (0, 0, 1)])
     \<noteq> sum_list (map (snd \<circ> snd) [(0 :: int, 0 :: int, 10000000000000000 :: real), (0, 0, 1)])"
  by (simp add: add_usage_calls_by_def add_usage_by_def TokenUsage_new_def post_init_def
      double_add_def double_round_1e16 double_round_1e16_1)

text \<open>
  Claim C6. \<open>get_total_tokens()\<close> returns exactly \<open>input_tokens + output_tokens\<close>; on an
  accumulator that started fresh this is the cumulative count of all input and output
  tokens added so far.
\<close>

theorem get_total_tokens_sum:
  "get_total_tokens u = input_tokens u + output_tokens u
   \<and> get_total_tokens (add_usage u inp outp cost) = get_total_tokens u + inp + outp
   \<and> get_total_tokens (add_usage_calls (TokenUsage_new now) calls)
       = sum_list (map fst calls) + sum_list (map (fst \<circ> snd) calls)"
  by (simp add: get_total_tokens_def add_usage_def add_usage_calls_fields
      TokenUsage_new_def post_init_def)

section \<open>Properties of estimate_tokens\<close>

text \<open>
  Claim C9. \<open>estimate_tokens(text)\<close> is the integer floor of \<open>len(text) / 4\<close>; it is never
  negative, it is \<open>0\<close> for every string shorter than four characters, and it does not
  decrease when the length of the input grows.
\<close>

theorem estimate_tokens_floor:
  "estimate_tokens t = \<lfloor>real (length t) / 4\<rfloor>
   \<and> 0 \<le> estimate_tokens t
   \<and> (length t < 4 \<longrightarrow> estimate_tokens t = 0)
   \<and> (length s \<le> length t \<longrightarrow> estimate_tokens s \<le> estimate_tokens t)"
proof -
  have "\<lfloor>real (length t) / 4\<rfloor> = \<lfloor>real_of_int (int (length t)) / real_of_int 4\<rfloor>"
    by simp
  also have "\<dots> = int (length t) div 4"
    by (rule floor_divide_of_int_eq)
  finally have fl: "estimate_tokens t = \<lfloor>real (length t) / 4\<rfloor>"
    by (simp add: estimate_tokens_def)
  have mono: "length s \<le> length t \<longrightarrow> estimate_tokens s \<le> estimate_tokens t"
    by (simp add: estimate_tokens_def zdiv_mono1)
  have nonneg: "0 \<le> estimate_tokens t"
    by (simp add: estimate_tokens_def)
  have small: "length t < 4 \<longrightarrow> estimate_tokens t = 0"
    by (simp add: estimate_tokens_def)
  show ?thesis
    using fl nonneg small mono by blast
qed

theorem estimate_tokens_floor_witness:
  "length ''abc'' < 4 \<and> estimate_tokens ''abc'' = 0
   \<and> length ''abc'' \<le> length ''abcdefghi''
   \<and> estimate_tokens ''abc'' \<le> estimate_tokens ''abcdefghi''
   \<and> estimate_tokens ''abcdefghi'' = 2"
  using estimate_tokens_floor [of "''abc''" "''abc''"]
    estimate_tokens_floor [of "''abcdefghi''" "''abc''"]
  by (simp add: estimate_tokens_def)

section \<open>Properties of stream_with_tools\<close>

subsection \<open>The streaming loop\<close>

lemmas run_defs = stream_with_tools_def try_block_def build_params_def sample_world_def
  sample_backend_def user_message_def startswith_def endswith_def completed_def text_delta_def
  on_chunk_def read_usage_def calculate_cost_def pricing_def initial_state_def add_usage_def
  TokenUsage_new_def post_init_def env_rate_def sample_float_def sample_events_def
  sample_params_def reasoning_effort_def Let_def

text \<open>An event that is not the completion event never raises, leaves the accumulator and
  the token variables alone, and yields neither a \<open>done\<close> nor an \<open>error\<close> chunk.\<close>

lemma on_chunk_plain:
  assumes "\<not> is_completed ev"
  shows "\<exists>st' ys. on_chunk w m st ev = Inr st'
     \<and> l_token_usage st' = l_token_usage st
     \<and> l_input_tokens st' = l_input_tokens st
     \<and> l_output_tokens st' = l_output_tokens st
     \<and> l_yielded st' = l_yielded st @ ys
     \<and> (\<forall>c\<in>set ys. \<not> is_done c \<and> \<not> is_error c)"
  using assms
  by (auto simp: on_chunk_def is_completed_def is_done_def is_error_def content_chunk_def
      tool_calls_chunk_def split: option.splits)

text \<open>At the completion event the cost is computed; if that raises, nothing is added and
  nothing is yielded.\<close>

lemma on_chunk_completed:
  assumes "is_completed ev"
  shows "on_chunk w m st ev =
     (case calculate_cost w (fst (read_usage st ev)) (snd (read_usage st ev)) m of
        Inl e \<Rightarrow> Inl e
      | Inr cost \<Rightarrow>
          Inr (st\<lparr>l_input_tokens := fst (read_usage st ev),
                  l_output_tokens := snd (read_usage st ev),
                  l_token_usage := add_usage (l_token_usage st) (fst (read_usage st ev))
                      (snd (read_usage st ev)) cost,
                  l_yielded := l_yielded st @ [done_chunk]\<rparr>))"
  using assms
  by (simp add: on_chunk_def is_completed_def split: prod.splits sum.splits)

lemma on_chunk_step:
  assumes "on_chunk w m st ev = Inr st'"
  shows "\<exists>ys. l_yielded st' = l_yielded st @ ys \<and> (\<forall>c\<in>set ys. \<not> is_error c)
     \<and> (l_token_usage st' = l_token_usage st \<or> (\<exists>c\<in>set ys. is_done c))"
proof (cases "is_completed ev")
  case True
  with assms show ?thesis
    by (auto simp: on_chunk_completed is_done_def is_error_def done_chunk_def split: sum.splits)
next
  case False
  from on_chunk_plain [OF False, of w m st] assms show ?thesis
    by auto
qed

lemma consume_append:
  "consume w m (xs @ ys) st =
     (case consume w m xs st of
        (st', None) \<Rightarrow> consume w m ys st'
      | (st', Some e) \<Rightarrow> (st', Some e))"
  by (induction xs arbitrary: st) (auto split: sum.splits)

lemma consume_plain:
  assumes "\<forall>e\<in>set evs. \<not> is_completed e"
  shows "\<exists>st' ys. consume w m evs st = (st', None)
     \<and> l_token_usage st' = l_token_usage st
     \<and> l_input_tokens st' = l_input_tokens st
     \<and> l_output_tokens st' = l_output_tokens st
     \<and> l_yielded st' = l_yielded st @ ys
     \<and> (\<forall>c\<in>set ys. \<not> is_done c \<and> \<not> is_error c)"
  using assms
proof (induction evs arbitrary: st)
  case Nil
  then show ?case by simp
next
  case (Cons ev evs)
  from Cons.prems have "\<not> is_completed ev" by simp
  from on_chunk_plain [OF this, of w m st] obtain st1 ys1 where
    s1: "on_chunk w m st ev = Inr st1" "l_token_usage st1 = l_token_usage st"
      "l_input_tokens st1 = l_input_tokens st" "l_output_tokens st1 = l_output_tokens st"
      "l_yielded st1 = l_yielded st @ ys1" "\<forall>c\<in>set ys1. \<not> is_done c \<and> \<not> is_error c"
    by blast
  from Cons.prems have "\<forall>e\<in>set evs. \<not> is_completed e" by simp
  from Cons.IH [OF this, of st1] obtain st2 ys2 where
    s2: "consume w m evs st1 = (st2, None)" "l_token_usage st2 = l_token_usage st1"
      "l_input_tokens st2 = l_input_tokens st1" "l_output_tokens st2 = l_output_tokens st1"
      "l_yielded st2 = l_yielded st1 @ ys2" "\<forall>c\<in>set ys2. \<not> is_done c \<and> \<not> is_error c"
    by blast
  have "consume w m (ev # evs) st = (st2, None)"
    using s1(1) s2(1) by simp
  moreover have "l_yielded st2 = l_yielded st @ (ys1 @ ys2)"
    using s1(5) s2(5) by simp
  moreover have "\<forall>c\<in>set (ys1 @ ys2). \<not> is_done c \<and> \<not> is_error c"
    using s1(6) s2(6) by auto
  ultimately show ?case
    using s1(2-4) s2(2-4) by metis
qed

text \<open>Whatever the events: the loop only appends to the chunks yielded, never an \<open>error\<close>
  chunk, and the accumulator changes only if a \<open>done\<close> chunk is among them.\<close>

lemma consume_yielded:
  "\<exists>ys. l_yielded (fst (consume w m evs st)) = l_yielded st @ ys
     \<and> (\<forall>c\<in>set ys. \<not> is_error c)
     \<and> (l_token_usage (fst (consume w m evs st)) = l_token_usage st \<or> (\<exists>c\<in>set ys. is_done c))"
proof (induction evs arbitrary: st)
  case Nil
  then show ?case by simp
next
  case (Cons ev evs)
  show ?case
  proof (cases "on_chunk w m st ev")
    case (Inl e)
    then show ?thesis by simp
  next
    case (Inr st1)
    from on_chunk_step [OF Inr] obtain ys1 where
      s1: "l_yielded st1 = l_yielded st @ ys1" "\<forall>c\<in>set ys1. \<not> is_error c"
        "l_token_usage st1 = l_token_usage st \<or> (\<exists>c\<in>set ys1. is_done c)"
      by blast
    from Cons.IH [of st1] obtain ys2 where
      s2: "l_yielded (fst (consume w m evs st1)) = l_yielded st1 @ ys2"
        "\<forall>c\<in>set ys2. \<not> is_error c"
        "l_token_usage (fst (consume w m evs st1)) = l_token_usage st1 \<or> (\<exists>c\<in>set ys2. is_done c)"
      by blast
    have c: "consume w m (ev # evs) st = consume w m evs st1"
      using Inr by simp
    have "l_yielded (fst (consume w m (ev # evs) st)) = l_yielded st @ (ys1 @ ys2)"
      using c s1(1) s2(1) by simp
    moreover have "\<forall>c\<in>set (ys1 @ ys2). \<not> is_error c"
      using s1(2) s2(2) by auto
    moreover have "l_token_usage (fst (consume w m (ev # evs) st)) = l_token_usage st
        \<or> (\<exists>c\<in>set (ys1 @ ys2). is_done c)"
      using c s1(3) s2(3) by auto
    ultimately show ?thesis by blast
  qed
qed


lemma try_block_invariant:
  "(\<forall>c\<in>set (fst (fst (try_block w self messages tools))). \<not> is_error c)
   \<and> (snd (fst (try_block w self messages tools)) = token_usage self
        \<or> (\<exists>c\<in>set (fst (fst (try_block w self messages tools))). is_done c))"
proof (cases "build_params self messages tools")
  case (Inl e)
  then show ?thesis by (simp add: try_block_def)
next
  case (Inr ps)
  show ?thesis
  proof (cases "responses_create w ps")
    case (Inl e)
    with Inr show ?thesis by (simp add: try_block_def)
  next
    case (Inr r)
    obtain events raised where r: "r = Response events raised"
      by (cases r)
    let ?c = "consume w (self_model self) events (initial_state (token_usage self))"
    have tb: "fst (try_block w self messages tools) = (l_yielded (fst ?c), l_token_usage (fst ?c))"
      using \<open>build_params self messages tools = Inr ps\<close> Inr r
      by (simp add: try_block_def split: prod.splits option.splits)
    from consume_yielded [of w "self_model self" events "initial_state (token_usage self)"]
    show ?thesis
      unfolding tb by (auto simp: initial_state_def)
  qed
qed

lemma try_block_stream:
  assumes "build_params self messages tools = Inr ps"
    and "responses_create w ps = Inr (Response events raised)"
    and "consume w (self_model self) events (initial_state (token_usage self)) = (st, failure)"
  shows "try_block w self messages tools =
     ((l_yielded st, l_token_usage st), (case failure of None \<Rightarrow> raised | Some e \<Rightarrow> Some e))"
  using assms by (simp add: try_block_def split: option.splits)

lemma stream_with_tools_split:
  "stream_with_tools w self messages tools =
     (fst (fst (try_block w self messages tools))
        @ (case snd (try_block w self messages tools) of None \<Rightarrow> [] | Some e \<Rightarrow> [error_chunk e]),
      self\<lparr>token_usage := snd (fst (try_block w self messages tools))\<rparr>)"
  by (simp add: stream_with_tools_def split: prod.splits option.splits)

lemma read_usage_zero:
  assumes "l_input_tokens st = 0" and "l_output_tokens st = 0"
  shows "read_usage st ev = usage_or_zero ev"
  using assms by (simp add: read_usage_def usage_or_zero_def split: option.splits)

lemma filter_singleton_split:
  assumes "filter P xs = [x]"
  shows "\<exists>us vs. xs = us @ x # vs \<and> (\<forall>u\<in>set us. \<not> P u) \<and> P x \<and> (\<forall>v\<in>set vs. \<not> P v)"
proof -
  from assms obtain us vs where
    "xs = us @ x # vs" "\<forall>u\<in>set us. \<not> P u" "P x" "[] = filter P vs"
    unfolding filter_eq_Cons_iff by blast
  moreover from this(4) have "\<forall>v\<in>set vs. \<not> P v"
    by (metis filter_empty_conv)
  ultimately show ?thesis by blast
qed

subsection \<open>The done chunk\<close>

text \<open>
  Claim C1 (as amended). The claim as written promises one \<open>done\<close> chunk for every
  invocation; the handler of a failure yields an \<open>error\<close> chunk and no \<open>done\<close>. What holds:
  for every invocation in which nothing raises and whose provider stream ends with its
  only \<open>response.completed\<close> event, exactly one chunk of type \<open>done\<close> is emitted and it is
  the last chunk of the sequence; no \<open>error\<close> chunk is emitted.
\<close>

theorem one_done_last:
  assumes ps: "build_params self messages tools = Inr ps"
    and call: "responses_create w ps = Inr (Response (pre @ [ev]) raised)"
    and ev: "is_completed ev"
    and pre: "\<forall>e\<in>set pre. \<not> is_completed e"
    and ok: "snd (try_block w self messages tools) = None"
  shows "filter is_done (fst (stream_with_tools w self messages tools)) = [done_chunk]
       \<and> last (fst (stream_with_tools w self messages tools)) = done_chunk
       \<and> filter is_error (fst (stream_with_tools w self messages tools)) = []"
proof -
  let ?m = "self_model self"
  let ?s0 = "initial_state (token_usage self)"
  from consume_plain [OF pre, of w ?m ?s0] obtain st1 ys where
    s1: "consume w ?m pre ?s0 = (st1, None)" "l_yielded st1 = l_yielded ?s0 @ ys"
      "\<forall>c\<in>set ys. \<not> is_done c \<and> \<not> is_error c"
    by blast
  have c: "consume w ?m (pre @ [ev]) ?s0 =
      (case on_chunk w ?m st1 ev of Inl e \<Rightarrow> (st1, Some e) | Inr st' \<Rightarrow> (st', None))"
    using s1(1) by (simp add: consume_append split: sum.splits)
  show ?thesis
  proof (cases "on_chunk w ?m st1 ev")
    case (Inl e)
    with c have "consume w ?m (pre @ [ev]) ?s0 = (st1, Some e)" by simp
    from try_block_stream [OF ps call this] ok show ?thesis by simp
  next
    case (Inr st2)
    with c have c2: "consume w ?m (pre @ [ev]) ?s0 = (st2, None)" by simp
    from Inr ev have y2: "l_yielded st2 = l_yielded st1 @ [done_chunk]"
      by (auto simp: on_chunk_completed split: sum.splits)
    from try_block_stream [OF ps call c2] ok
    have "fst (stream_with_tools w self messages tools) = l_yielded st2"
      by (simp add: stream_with_tools_split)
    then have out: "fst (stream_with_tools w self messages tools) = ys @ [done_chunk]"
      using y2 s1(2) by (simp add: initial_state_def)
    have d: "is_done done_chunk" "\<not> is_error done_chunk"
      by (simp_all add: is_done_def is_error_def done_chunk_def)
    have "filter is_done ys = []" "filter is_error ys = []"
      using s1(3) by (simp_all add: filter_empty_conv)
    then show ?thesis
      using out d by simp
  qed
qed

theorem one_done_last_witness:
  "fst (stream_with_tools (sample_world Map.empty (Inr (Response sample_events None)))
        (sample_backend ''gpt-4o'') [user_message ''hi''] None)
     = [content_chunk ''Hel'', content_chunk ''lo'', done_chunk]
   \<and> filter is_done
        (fst (stream_with_tools (sample_world Map.empty (Inr (Response sample_events None)))
           (sample_backend ''gpt-4o'') [user_message ''hi''] None)) = [done_chunk]
   \<and> last (fst (stream_with_tools (sample_world Map.empty (Inr (Response sample_events None)))
           (sample_backend ''gpt-4o'') [user_message ''hi''] None)) = done_chunk"
proof -
  let ?w = "sample_world Map.empty (Inr (Response sample_events None))"
  let ?b = "sample_backend ''gpt-4o''"
  let ?ev = "completed (Some \<lparr>u_input_tokens = Some 1000, u_output_tokens = Some 2000\<rparr>)"
  have h1: "build_params ?b [user_message ''hi''] None = Inr sample_params"
    by (simp add: run_defs)
  have h2: "responses_create ?w sample_params
      = Inr (Response ([text_delta ''Hel'', text_delta ''lo''] @ [?ev]) None)"
    by (simp add: sample_world_def sample_events_def)
  have h3: "is_completed ?ev"
    by (simp add: is_completed_def completed_def)
  have h4: "\<forall>e\<in>set [text_delta ''Hel'', text_delta ''lo'']. \<not> is_completed e"
    by (simp add: is_completed_def text_delta_def)
  have h5: "snd (try_block ?w ?b [user_message ''hi''] None) = None"
    by (simp add: run_defs)
  have run: "fst (stream_with_tools ?w ?b [user_message ''hi''] None)
      = [content_chunk ''Hel'', content_chunk ''lo'', done_chunk]"
    by (simp add: run_defs)
  from one_done_last [OF h1 h2 h3 h4 h5] run show ?thesis
    by simp
qed

text \<open>
  Claim C1 as written fails. When the provider call raises, the sequence is the \<open>error\<close>
  chunk alone: no \<open>done\<close> chunk is emitted. A stream that ends without a completion event
  gives no \<open>done\<close> chunk either, and a delta delivered after the completion event is
  yielded after the \<open>done\<close> chunk.
\<close>

theorem failed_call_emits_no_done:
  "fst (stream_with_tools (sample_world Map.empty (Inl (OtherError ''connection refused'')))
        (sample_backend ''gpt-4o'') [user_message ''hi''] None)
     = [error_chunk (OtherError ''connection refused'')]
   \<and> filter is_done
        (fst (stream_with_tools (sample_world Map.empty (Inl (OtherError ''connection refused'')))
           (sample_backend ''gpt-4o'') [user_message ''hi''] None)) = []
   \<and> fst (stream_with_tools (sample_world Map.empty (Inr (Response [text_delta ''Hel''] None)))
        (sample_backend ''gpt-4o'') [user_message ''hi''] None)
     = [content_chunk ''Hel'']
   \<and> fst (stream_with_tools
        (sample_world Map.empty (Inr (Response [completed None, text_delta ''lo''] None)))
        (sample_backend ''gpt-4o'') [user_message ''hi''] None)
     = [done_chunk, content_chunk ''lo'']"
  by (simp add: run_defs is_done_def error_chunk_def)

subsection \<open>Failures\<close>

lemma handler_output:
  assumes "snd (try_block w self messages tools) = Some e"
  shows "filter is_error (fst (stream_with_tools w self messages tools)) = [error_chunk e]
       \<and> last (fst (stream_with_tools w self messages tools)) = error_chunk e"
proof -
  have none: "filter is_error (fst (fst (try_block w self messages tools))) = []"
    using try_block_invariant [of w self messages tools] by (simp add: filter_empty_conv)
  have err: "is_error (error_chunk e)"
    by (simp add: is_error_def error_chunk_def)
  show ?thesis
    using assms none err by (simp add: stream_with_tools_split)
qed

lemma on_chunk_returns:
  assumes "\<forall>inp outp. \<exists>c. calculate_cost w inp outp m = Inr c"
  shows "\<exists>st'. on_chunk w m st ev = Inr st'"
proof (cases "is_completed ev")
  case True
  from assms obtain c where
    "calculate_cost w (fst (read_usage st ev)) (snd (read_usage st ev)) m = Inr c"
    by blast
  with True show ?thesis by (simp add: on_chunk_completed)
next
  case False
  from on_chunk_plain [OF False, of w m st] show ?thesis by blast
qed

lemma consume_returns:
  assumes "\<forall>inp outp. \<exists>c. calculate_cost w inp outp m = Inr c"
  shows "snd (consume w m evs st) = None"
proof (induction evs arbitrary: st)
  case Nil
  show ?case by simp
next
  case (Cons ev evs)
  from on_chunk_returns [OF assms, of st ev] obtain st' where "on_chunk w m st ev = Inr st'"
    by blast
  with Cons.IH [of st'] show ?case by simp
qed

lemma consume_plain_returns:
  assumes "\<forall>ev\<in>set evs. \<not> is_completed ev"
  shows "snd (consume w m evs st) = None"
  using consume_plain [OF assms, of w m st] by auto

lemma consume_cost_raises:
  assumes pre: "\<forall>x\<in>set pre. \<not> is_completed x"
    and ev: "is_completed ev"
    and st: "l_input_tokens st = 0" "l_output_tokens st = 0"
    and cost: "calculate_cost w (fst (usage_or_zero ev)) (snd (usage_or_zero ev)) m = Inl e"
  shows "snd (consume w m (pre @ ev # post) st) = Some e"
proof -
  from consume_plain [OF pre, of w m st] obtain st1 where
    s1: "consume w m pre st = (st1, None)" "l_input_tokens st1 = l_input_tokens st"
      "l_output_tokens st1 = l_output_tokens st"
    by blast
  have "read_usage st1 ev = usage_or_zero ev"
    using s1(2,3) st by (simp add: read_usage_zero)
  then have "on_chunk w m st1 ev = Inl e"
    using ev cost by (simp add: on_chunk_completed)
  then show ?thesis
    using s1(1) by (simp add: consume_append)
qed

lemma calculate_cost_raises_regardless:
  assumes "calculate_cost w inp outp m = Inl e"
  shows "calculate_cost w inp' outp' m = Inl e"
  using assms unfolding calculate_cost_def
  by (cases "map_of pricing (strip_suffix m [''-low'', ''-medium'', ''-high''])";
      cases "env_rate w ''FALLBACK_INPUT_RATE'' ''0.0025''";
      cases "env_rate w ''FALLBACK_OUTPUT_RATE'' ''0.01''")
    (simp_all del: strip_suffix.simps split: prod.splits)

lemma calculate_cost_returns_regardless:
  assumes "calculate_cost w inp outp m = Inr c"
  shows "\<exists>c'. calculate_cost w inp' outp' m = Inr c'"
  using assms unfolding calculate_cost_def
  by (cases "map_of pricing (strip_suffix m [''-low'', ''-medium'', ''-high''])";
      cases "env_rate w ''FALLBACK_INPUT_RATE'' ''0.0025''";
      cases "env_rate w ''FALLBACK_OUTPUT_RATE'' ''0.01''")
    (simp_all del: strip_suffix.simps split: prod.splits)

lemma consume_raises:
  assumes "snd (consume w m evs st) = Some e"
  shows "\<exists>pre ev post st1. evs = pre @ ev # post \<and> consume w m pre st = (st1, None)
      \<and> on_chunk w m st1 ev = Inl e"
  using assms
proof (induction evs arbitrary: st)
  case Nil
  then show ?case by simp
next
  case (Cons a evs)
  show ?case
  proof (cases "on_chunk w m st a")
    case (Inl x)
    with Cons.prems have "x = e" by simp
    with Inl have "a # evs = [] @ a # evs \<and> consume w m [] st = (st, None)
        \<and> on_chunk w m st a = Inl e"
      by simp
    then show ?thesis by blast
  next
    case (Inr st')
    with Cons.prems have "snd (consume w m evs st') = Some e" by simp
    from Cons.IH [OF this] obtain pre ev post st1 where
      p: "evs = pre @ ev # post" "consume w m pre st' = (st1, None)"
        "on_chunk w m st1 ev = Inl e"
      by blast
    have "a # evs = (a # pre) @ ev # post \<and> consume w m (a # pre) st = (st1, None)
        \<and> on_chunk w m st1 ev = Inl e"
      using p Inr by simp
    then show ?thesis by blast
  qed
qed

lemma on_chunk_raises:
  assumes "on_chunk w m st ev = Inl e"
  shows "is_completed ev
      \<and> calculate_cost w (fst (read_usage st ev)) (snd (read_usage st ev)) m = Inl e"
proof -
  have c: "is_completed ev"
    using assms on_chunk_plain [of ev w m st] by auto
  with assms show ?thesis
    by (simp add: on_chunk_completed split: sum.splits)
qed

lemma consume_completed_returns:
  assumes "consume w m evs st = (st', None)" and "ev \<in> set evs" and "is_completed ev"
  shows "\<exists>inp outp c. calculate_cost w inp outp m = Inr c"
  using assms
proof (induction evs arbitrary: st)
  case Nil
  then show ?case by simp
next
  case (Cons a evs)
  show ?case
  proof (cases "on_chunk w m st a")
    case (Inl x)
    with Cons.prems(1) show ?thesis by simp
  next
    case (Inr st1)
    show ?thesis
    proof (cases "is_completed a")
      case True
      with Inr show ?thesis
        by (auto simp: on_chunk_completed split: sum.splits)
    next
      case False
      with Cons.prems have "ev \<in> set evs" by auto
      moreover from Inr Cons.prems(1) have "consume w m evs st1 = (st', None)" by simp
      ultimately show ?thesis
        using Cons.IH Cons.prems(3) by blast
    qed
  qed
qed

text \<open>The exceptions that can end the body of the \<open>try\<close> are the four of claim C3: whether
  \<open>calculate_cost\<close> raises does not depend on the token counts, so it raises at the first
  completion event or never.\<close>

lemma failure_sources:
  assumes "snd (try_block w self messages tools) = Some e"
  shows "build_params self messages tools = Inl e
     \<or> (\<exists>ps. build_params self messages tools = Inr ps \<and> responses_create w ps = Inl e)
     \<or> (\<exists>ps events. build_params self messages tools = Inr ps
           \<and> responses_create w ps = Inr (Response events (Some e))
           \<and> ((\<forall>ev\<in>set events. \<not> is_completed ev)
                \<or> (\<forall>inp outp. \<exists>c. calculate_cost w inp outp (self_model self) = Inr c)))
     \<or> (\<exists>ps pre ev post raised. build_params self messages tools = Inr ps
           \<and> responses_create w ps = Inr (Response (pre @ ev # post) raised)
           \<and> (\<forall>x\<in>set pre. \<not> is_completed x) \<and> is_completed ev
           \<and> calculate_cost w (fst (usage_or_zero ev)) (snd (usage_or_zero ev)) (self_model self)
               = Inl e)"
proof (cases "build_params self messages tools")
  case (Inl x)
  with assms show ?thesis by (simp add: try_block_def)
next
  case ps: (Inr ps)
  show ?thesis
  proof (cases "responses_create w ps")
    case (Inl x)
    with ps assms show ?thesis by (simp add: try_block_def)
  next
    case (Inr r)
    obtain events raised where r: "r = Response events raised" by (cases r)
    let ?m = "self_model self"
    let ?s0 = "initial_state (token_usage self)"
    obtain st failure where c: "consume w ?m events ?s0 = (st, failure)"
      by (cases "consume w ?m events ?s0")
    from try_block_stream [OF ps Inr [unfolded r] c] assms
    have f: "(case failure of None \<Rightarrow> raised | Some x \<Rightarrow> Some x) = Some e" by simp
    show ?thesis
    proof (cases failure)
      case None
      with f have raised: "raised = Some e" by simp
      have "(\<forall>ev\<in>set events. \<not> is_completed ev)
          \<or> (\<forall>inp outp. \<exists>c. calculate_cost w inp outp ?m = Inr c)"
        using consume_completed_returns [OF c [unfolded None]]
          calculate_cost_returns_regardless by blast
      with ps Inr r raised show ?thesis by blast
    next
      case (Some x)
      with f have x: "x = e" by simp
      from c Some x have "snd (consume w ?m events ?s0) = Some e" by simp
      from consume_raises [OF this] obtain pre ev post st1 where
        p: "events = pre @ ev # post" "consume w ?m pre ?s0 = (st1, None)"
          "on_chunk w ?m st1 ev = Inl e"
        by blast
      from on_chunk_raises [OF p(3)] have ev: "is_completed ev"
        and cost: "calculate_cost w (fst (read_usage st1 ev)) (snd (read_usage st1 ev)) ?m = Inl e"
        by simp_all
      have pre: "\<forall>x\<in>set pre. \<not> is_completed x"
      proof (rule ccontr)
        assume "\<not> (\<forall>x\<in>set pre. \<not> is_completed x)"
        then obtain y where "y \<in> set pre" "is_completed y" by blast
        from consume_completed_returns [OF p(2) this] obtain i j k where
          "calculate_cost w i j ?m = Inr k" by blast
        from calculate_cost_returns_regardless [OF this] cost show False
          by (metis sum.distinct(1))
      qed
      from calculate_cost_raises_regardless [OF cost]
      have "calculate_cost w (fst (usage_or_zero ev)) (snd (usage_or_zero ev)) ?m = Inl e" .
      with ps Inr r p(1) pre ev show ?thesis by blast
    qed
  qed
qed

text \<open>
  Claim C3. Every failure raised while the provider call is prepared or consumed reaches
  the handler: when \<open>build_params\<close> raises (a system message without content) or the
  provider call raises, the sequence is the one \<open>error\<close> chunk; when the provider's stream
  raises after its events, or \<open>calculate_cost\<close> raises at the first completion event, the
  chunks yielded before are followed by one \<open>error\<close> chunk, the only one and the last
  chunk of the sequence. Its \<open>error\<close> field is the message of the exception and its \<open>source\<close>
  field is the provider name. The exception is not raised to the caller: the generator
  ends, and \<open>stream_with_tools\<close> is the plain list of chunks.
\<close>

theorem stream_with_tools_failure:
  "(build_params self messages tools = Inl e
      \<longrightarrow> fst (stream_with_tools w self messages tools) = [error_chunk e])
   \<and> (build_params self messages tools = Inr ps \<and> responses_create w ps = Inl e
      \<longrightarrow> fst (stream_with_tools w self messages tools) = [error_chunk e])
   \<and> (build_params self messages tools = Inr ps
        \<and> responses_create w ps = Inr (Response events (Some e))
        \<and> ((\<forall>ev\<in>set events. \<not> is_completed ev)
             \<or> (\<forall>inp outp. \<exists>c. calculate_cost w inp outp (self_model self) = Inr c))
      \<longrightarrow> filter is_error (fst (stream_with_tools w self messages tools)) = [error_chunk e]
          \<and> last (fst (stream_with_tools w self messages tools)) = error_chunk e)
   \<and> (build_params self messages tools = Inr ps
        \<and> responses_create w ps = Inr (Response (pre @ ev # post) raised)
        \<and> (\<forall>x\<in>set pre. \<not> is_completed x) \<and> is_completed ev
        \<and> calculate_cost w (fst (usage_or_zero ev)) (snd (usage_or_zero ev)) (self_model self)
            = Inl e
      \<longrightarrow> filter is_error (fst (stream_with_tools w self messages tools)) = [error_chunk e]
          \<and> last (fst (stream_with_tools w self messages tools)) = error_chunk e)
   \<and> type (error_chunk e) = ''error''
   \<and> error (error_chunk e) = Some (py_str e)
   \<and> source (error_chunk e) = Some (get_provider_name self)"
proof -
  let ?m = "self_model self"
  let ?s0 = "initial_state (token_usage self)"
  have c1: "fst (stream_with_tools w self messages tools) = [error_chunk e]"
    if "build_params self messages tools = Inl e"
    using that by (simp add: stream_with_tools_def try_block_def)
  have c2: "fst (stream_with_tools w self messages tools) = [error_chunk e]"
    if "build_params self messages tools = Inr ps" "responses_create w ps = Inl e"
    using that by (simp add: stream_with_tools_def try_block_def)
  have c3: "filter is_error (fst (stream_with_tools w self messages tools)) = [error_chunk e]
      \<and> last (fst (stream_with_tools w self messages tools)) = error_chunk e"
    if ps: "build_params self messages tools = Inr ps"
      and call: "responses_create w ps = Inr (Response events (Some e))"
      and quiet: "(\<forall>ev\<in>set events. \<not> is_completed ev)
        \<or> (\<forall>inp outp. \<exists>c. calculate_cost w inp outp ?m = Inr c)"
  proof -
    have "snd (consume w ?m events ?s0) = None"
      using quiet consume_plain_returns consume_returns by blast
    then obtain st where "consume w ?m events ?s0 = (st, None)"
      by (cases "consume w ?m events ?s0") simp
    from try_block_stream [OF ps call this]
    have "snd (try_block w self messages tools) = Some e" by simp
    then show ?thesis by (rule handler_output)
  qed
  have c4: "filter is_error (fst (stream_with_tools w self messages tools)) = [error_chunk e]
      \<and> last (fst (stream_with_tools w self messages tools)) = error_chunk e"
    if ps: "build_params self messages tools = Inr ps"
      and call: "responses_create w ps = Inr (Response (pre @ ev # post) raised)"
      and pre: "\<forall>x\<in>set pre. \<not> is_completed x" and ev: "is_completed ev"
      and cost: "calculate_cost w (fst (usage_or_zero ev)) (snd (usage_or_zero ev)) ?m = Inl e"
  proof -
    have "snd (consume w ?m (pre @ ev # post) ?s0) = Some e"
      by (rule consume_cost_raises [OF pre ev _ _ cost]) (simp_all add: initial_state_def)
    then obtain st where "consume w ?m (pre @ ev # post) ?s0 = (st, Some e)"
      by (cases "consume w ?m (pre @ ev # post) ?s0") simp
    from try_block_stream [OF ps call this]
    have "snd (try_block w self messages tools) = Some e" by simp
    then show ?thesis by (rule handler_output)
  qed
  have f: "type (error_chunk e) = ''error''" "error (error_chunk e) = Some (py_str e)"
    "source (error_chunk e) = Some (get_provider_name self)"
    by (simp_all add: error_chunk_def get_provider_name_def)
  show ?thesis
    using c1 c2 c3 c4 f by blast
qed


theorem stream_with_tools_failure_witness:
  "fst (stream_with_tools (sample_world Map.empty (Inl (OtherError ''connection refused'')))
        (sample_backend ''gpt-4o'') [[''role'' \<mapsto> ''system'']] None)
     = [error_chunk (KeyError ''content'')]
   \<and> error (error_chunk (KeyError ''content'')) = Some ([CHR 0x27] @ ''content'' @ [CHR 0x27])
   \<and> fst (stream_with_tools (sample_world Map.empty (Inl (OtherError ''connection refused'')))
        (sample_backend ''gpt-4o'') [user_message ''hi''] None)
     = [error_chunk (OtherError ''connection refused'')]
   \<and> fst (stream_with_tools
        (sample_world Map.empty
           (Inr (Response [text_delta ''Hel''] (Some (OtherError ''connection reset'')))))
        (sample_backend ''gpt-4o'') [user_message ''hi''] None)
     = [content_chunk ''Hel'', error_chunk (OtherError ''connection reset'')]
   \<and> filter is_error (fst (stream_with_tools
        (sample_world Map.empty
           (Inr (Response [text_delta ''Hel''] (Some (OtherError ''connection reset'')))))
        (sample_backend ''gpt-4o'') [user_message ''hi''] None))
     = [error_chunk (OtherError ''connection reset'')]
   \<and> filter is_error (fst (stream_with_tools
        (sample_world [''FALLBACK_INPUT_RATE'' \<mapsto> ''abc'']
           (Inr (Response [text_delta ''Hel'', completed None, text_delta ''lo''] None)))
        (sample_backend ''my-model'') [user_message ''hi''] None))
     = [error_chunk (ValueError (''could not convert string to float: '' @ [CHR 0x27] @ ''abc''
          @ [CHR 0x27]))]
   \<and> last (fst (stream_with_tools
        (sample_world [''FALLBACK_INPUT_RATE'' \<mapsto> ''abc'']
           (Inr (Response [text_delta ''Hel'', completed None, text_delta ''lo''] None)))
        (sample_backend ''my-model'') [user_message ''hi''] None))
     = error_chunk (ValueError (''could not convert string to float: '' @ [CHR 0x27] @ ''abc''
          @ [CHR 0x27]))
   \<and> source (error_chunk (OtherError ''connection reset'')) = Some ''openai''"
proof -
  let ?b = "sample_backend ''gpt-4o''"
  let ?w2 = "sample_world Map.empty (Inl (OtherError ''connection refused''))"
  let ?w3 = "sample_world Map.empty
      (Inr (Response [text_delta ''Hel''] (Some (OtherError ''connection reset''))))"
  let ?w4 = "sample_world [''FALLBACK_INPUT_RATE'' \<mapsto> ''abc'']
      (Inr (Response ([text_delta ''Hel''] @ completed None # [text_delta ''lo'']) None))"
  let ?e4 = "ValueError (''could not convert string to float: '' @ [CHR 0x27] @ ''abc''
      @ [CHR 0x27])"
  let ?p4 = "sample_params\<lparr>p_model := ''my-model''\<rparr>"
  have h1: "build_params ?b [[''role'' \<mapsto> ''system'']] None = Inl (KeyError ''content'')"
    by (simp add: build_params_def)
  have ps: "build_params ?b [user_message ''hi''] None = Inr sample_params"
    by (simp add: run_defs)
  have h2: "build_params ?b [user_message ''hi''] None = Inr sample_params
      \<and> responses_create ?w2 sample_params = Inl (OtherError ''connection refused'')"
    using ps by (simp add: sample_world_def)
  have h3: "build_params ?b [user_message ''hi''] None = Inr sample_params
      \<and> responses_create ?w3 sample_params
          = Inr (Response [text_delta ''Hel''] (Some (OtherError ''connection reset'')))
      \<and> ((\<forall>ev\<in>set [text_delta ''Hel'']. \<not> is_completed ev)
           \<or> (\<forall>inp outp. \<exists>c. calculate_cost ?w3 inp outp (self_model ?b) = Inr c))"
    using ps by (simp add: sample_world_def is_completed_def text_delta_def)
  have h4: "build_params (sample_backend ''my-model'') [user_message ''hi''] None = Inr ?p4
      \<and> responses_create ?w4 ?p4
          = Inr (Response ([text_delta ''Hel''] @ completed None # [text_delta ''lo'']) None)
      \<and> (\<forall>x\<in>set [text_delta ''Hel'']. \<not> is_completed x) \<and> is_completed (completed None)
      \<and> calculate_cost ?w4 (fst (usage_or_zero (completed None)))
            (snd (usage_or_zero (completed None))) (self_model (sample_backend ''my-model''))
          = Inl ?e4"
    by (simp add: run_defs is_completed_def usage_or_zero_def)
  note t1 = stream_with_tools_failure
    [where self = ?b and messages = "[[''role'' \<mapsto> ''system'']]" and tools = None
      and e = "KeyError ''content''" and w = ?w2, THEN conjunct1, THEN mp, OF h1]
  note t2 = stream_with_tools_failure
    [where self = ?b and messages = "[user_message ''hi'']" and tools = None
      and e = "OtherError ''connection refused''" and w = ?w2 and ps = sample_params,
      THEN conjunct2, THEN conjunct1, THEN mp, OF h2]
  note t3 = stream_with_tools_failure
    [where self = ?b and messages = "[user_message ''hi'']" and tools = None
      and e = "OtherError ''connection reset''" and w = ?w3 and ps = sample_params
      and events = "[text_delta ''Hel'']",
      THEN conjunct2, THEN conjunct2, THEN conjunct1, THEN mp, OF h3]
  note t4 = stream_with_tools_failure
    [where self = "sample_backend ''my-model''" and messages = "[user_message ''hi'']"
      and tools = None and e = ?e4 and w = ?w4 and ps = ?p4 and pre = "[text_delta ''Hel'']"
      and ev = "completed None" and post = "[text_delta ''lo'']" and raised = None,
      THEN conjunct2, THEN conjunct2, THEN conjunct2, THEN conjunct1, THEN mp, OF h4]
  have run: "fst (stream_with_tools ?w3 ?b [user_message ''hi''] None)
      = [content_chunk ''Hel'', error_chunk (OtherError ''connection reset'')]"
    by (simp add: run_defs)
  show ?thesis
    using t1 t2 t3 t4 run by (simp add: error_chunk_def)
qed

text \<open>
  Claim C8. A \<open>done\<close> chunk is yielded for every completion event that is handled to its
  end, and only there is usage added. So for every invocation that ends with an \<open>error\<close>
  chunk and has yielded no \<open>done\<close> chunk, the accumulator of the backend after the
  invocation is the one before it.
\<close>

theorem error_without_done_keeps_usage:
  assumes "fst (stream_with_tools w self messages tools) \<noteq> []"
    and "is_error (last (fst (stream_with_tools w self messages tools)))"
    and "\<forall>c\<in>set (fst (stream_with_tools w self messages tools)). \<not> is_done c"
  shows "token_usage (snd (stream_with_tools w self messages tools)) = token_usage self"
proof -
  from assms(3) have "\<forall>c\<in>set (fst (fst (try_block w self messages tools))). \<not> is_done c"
    by (simp add: stream_with_tools_split)
  with try_block_invariant [of w self messages tools]
  have "snd (fst (try_block w self messages tools)) = token_usage self"
    by blast
  then show ?thesis
    by (simp add: stream_with_tools_split)
qed


theorem error_without_done_keeps_usage_witness:
  "fst (stream_with_tools (sample_world Map.empty (Inl (OtherError ''rate limited'')))
        (sample_backend ''o3-mini-high'') [user_message ''hi''] None)
     = [error_chunk (OtherError ''rate limited'')]
   \<and> is_error (error_chunk (OtherError ''rate limited''))
   \<and> token_usage (snd (stream_with_tools
        (sample_world Map.empty (Inl (OtherError ''rate limited'')))
        (sample_backend ''o3-mini-high'') [user_message ''hi''] None))
     = token_usage (sample_backend ''o3-mini-high'')"
proof -
  let ?w = "sample_world Map.empty (Inl (OtherError ''rate limited''))"
  let ?b = "sample_backend ''o3-mini-high''"
  have run: "fst (stream_with_tools ?w ?b [user_message ''hi''] None)
      = [error_chunk (OtherError ''rate limited'')]"
    by (simp add: run_defs)
  have e: "is_error (error_chunk (OtherError ''rate limited''))"
      "\<not> is_done (error_chunk (OtherError ''rate limited''))"
    by (simp_all add: is_error_def is_done_def error_chunk_def)
  have h1: "fst (stream_with_tools ?w ?b [user_message ''hi''] None) \<noteq> []"
    using run by simp
  have h2: "is_error (last (fst (stream_with_tools ?w ?b [user_message ''hi''] None)))"
    using run e by simp
  have h3: "\<forall>c\<in>set (fst (stream_with_tools ?w ?b [user_message ''hi''] None)). \<not> is_done c"
    using run e by simp
  from error_without_done_keeps_usage [OF h1 h2 h3] run e show ?thesis
    by simp
qed

subsection \<open>The completion event\<close>

text \<open>
  Claim C5 (as amended). For every streamed response in which the provider emits exactly
  one completion event, and for which \<open>calculate_cost\<close> returns a cost, \<open>stream_with_tools\<close>
  reads \<open>input_tokens\<close> and \<open>output_tokens\<close> from the usage metadata of the event (each \<open>0\<close>
  when absent), adds them and the cost \<open>calculate_cost(input_tokens, output_tokens, model)\<close>
  to the accumulator of the backend, and yields a \<open>done\<close> chunk with status \<open>completed\<close>.
\<close>

theorem completion_adds_usage:
  assumes ps: "build_params self messages tools = Inr ps"
    and call: "responses_create w ps = Inr (Response events raised)"
    and one: "filter is_completed events = [ev]"
    and cost: "calculate_cost w (fst (usage_or_zero ev)) (snd (usage_or_zero ev)) (self_model self)
                 = Inr cost"
  shows "token_usage (snd (stream_with_tools w self messages tools))
           = add_usage (token_usage self) (fst (usage_or_zero ev)) (snd (usage_or_zero ev)) cost
       \<and> filter is_done (fst (stream_with_tools w self messages tools)) = [done_chunk]
       \<and> type done_chunk = ''done'' \<and> status done_chunk = Some ''completed''"
proof -
  let ?m = "self_model self"
  let ?s0 = "initial_state (token_usage self)"
  from filter_singleton_split [OF one] obtain pre post where
    ev: "events = pre @ ev # post" "\<forall>e\<in>set pre. \<not> is_completed e" "is_completed ev"
      "\<forall>e\<in>set post. \<not> is_completed e"
    by blast
  from consume_plain [OF ev(2), of w ?m ?s0] obtain st1 ys1 where
    s1: "consume w ?m pre ?s0 = (st1, None)" "l_token_usage st1 = l_token_usage ?s0"
      "l_input_tokens st1 = l_input_tokens ?s0" "l_output_tokens st1 = l_output_tokens ?s0"
      "l_yielded st1 = l_yielded ?s0 @ ys1" "\<forall>c\<in>set ys1. \<not> is_done c \<and> \<not> is_error c"
    by blast
  have ru: "read_usage st1 ev = usage_or_zero ev"
    using s1(3,4) by (simp add: read_usage_zero initial_state_def)
  define st2 where "st2 = st1\<lparr>l_input_tokens := fst (usage_or_zero ev),
      l_output_tokens := snd (usage_or_zero ev),
      l_token_usage := add_usage (l_token_usage st1) (fst (usage_or_zero ev))
          (snd (usage_or_zero ev)) cost,
      l_yielded := l_yielded st1 @ [done_chunk]\<rparr>"
  have oc: "on_chunk w ?m st1 ev = Inr st2"
    using ev(3) cost ru by (simp add: on_chunk_completed st2_def)
  from consume_plain [OF ev(4), of w ?m st2] obtain st3 ys3 where
    s3: "consume w ?m post st2 = (st3, None)" "l_token_usage st3 = l_token_usage st2"
      "l_yielded st3 = l_yielded st2 @ ys3" "\<forall>c\<in>set ys3. \<not> is_done c \<and> \<not> is_error c"
    by blast
  have c: "consume w ?m events ?s0 = (st3, None)"
    using s1(1) oc s3(1) by (simp add: ev(1) consume_append)
  from try_block_stream [OF ps call c]
  have tb: "try_block w self messages tools = ((l_yielded st3, l_token_usage st3), raised)"
    by simp
  have u: "l_token_usage st3
      = add_usage (token_usage self) (fst (usage_or_zero ev)) (snd (usage_or_zero ev)) cost"
    using s3(2) s1(2) by (simp add: st2_def initial_state_def)
  have y: "l_yielded st3 = ys1 @ [done_chunk] @ ys3"
    using s3(3) s1(5) by (simp add: st2_def initial_state_def)
  have d: "is_done done_chunk"
    by (simp add: is_done_def done_chunk_def)
  have "filter is_done ys1 = []" "filter is_done ys3 = []"
    using s1(6) s3(4) by (simp_all add: filter_empty_conv)
  then have f: "filter is_done (l_yielded st3) = [done_chunk]"
    using y d by simp
  have e: "\<not> is_done (error_chunk x)" for x
    by (simp add: is_done_def error_chunk_def)
  show ?thesis
    using tb u f e by (simp add: stream_with_tools_split done_chunk_def split: option.splits)
qed

theorem completion_adds_usage_witness:
  "filter is_completed sample_events
     = [completed (Some \<lparr>u_input_tokens = Some 1000, u_output_tokens = Some 2000\<rparr>)]
   \<and> calculate_cost (sample_world Map.empty (Inr (Response sample_events None))) 1000 2000
        ''gpt-4o'' = Inr (9 / 400)
   \<and> token_usage (snd (stream_with_tools
        (sample_world Map.empty (Inr (Response sample_events None)))
        (sample_backend ''gpt-4o'') [user_message ''hi''] None))
     = add_usage (TokenUsage_new 0) 1000 2000 (9 / 400)
   \<and> filter is_done (fst (stream_with_tools
        (sample_world Map.empty (Inr (Response sample_events None)))
        (sample_backend ''gpt-4o'') [user_message ''hi''] None)) = [done_chunk]"
proof -
  let ?w = "sample_world Map.empty (Inr (Response sample_events None))"
  let ?b = "sample_backend ''gpt-4o''"
  let ?ev = "completed (Some \<lparr>u_input_tokens = Some 1000, u_output_tokens = Some 2000\<rparr>)"
  have u: "usage_or_zero ?ev = (1000, 2000)"
    by (simp add: usage_or_zero_def completed_def)
  have h1: "build_params ?b [user_message ''hi''] None = Inr sample_params"
    by (simp add: run_defs)
  have h2: "responses_create ?w sample_params = Inr (Response sample_events None)"
    by (simp add: sample_world_def)
  have h3: "filter is_completed sample_events = [?ev]"
    by (simp add: sample_events_def is_completed_def completed_def text_delta_def)
  have c: "calculate_cost ?w 1000 2000 ''gpt-4o'' = Inr (9 / 400)"
    by (simp add: run_defs)
  have h4: "calculate_cost ?w (fst (usage_or_zero ?ev)) (snd (usage_or_zero ?ev))
      (self_model ?b) = Inr (9 / 400)"
    using c by (simp add: u sample_backend_def)
  have b: "token_usage ?b = TokenUsage_new 0"
    by (simp add: sample_backend_def)
  from completion_adds_usage [OF h1 h2 h3 h4] h3 c show ?thesis
    by (simp add: u b)
qed

text \<open>
  Claim C5 as written fails. For a model outside the pricing table with a malformed
  \<open>FALLBACK_INPUT_RATE\<close>, \<open>calculate_cost\<close> raises at the completion event: the sequence is one
  \<open>error\<close> chunk, no \<open>done\<close> chunk is yielded and nothing is added. And a second completion
  event without usage metadata adds the counts of the first again, not \<open>0\<close>: the total
  input is \<open>2000\<close>, where the claim gives \<open>1000 + 0\<close>.
\<close>

theorem completion_not_always_counted:
  "stream_with_tools
     (sample_world [''FALLBACK_INPUT_RATE'' \<mapsto> ''abc'']
        (Inr (Response [completed (Some \<lparr>u_input_tokens = Some 10, u_output_tokens = Some 20\<rparr>)]
           None)))
     (sample_backend ''my-model'') [user_message ''hi''] None
     = ([error_chunk (ValueError (''could not convert string to float: '' @ [CHR 0x27] @ ''abc''
           @ [CHR 0x27]))],
        sample_backend ''my-model'')
   \<and> usage_or_zero (completed None) = (0, 0)
   \<and> input_tokens (token_usage (snd (stream_with_tools
        (sample_world Map.empty
           (Inr (Response
              [completed (Some \<lparr>u_input_tokens = Some 1000, u_output_tokens = Some 2000\<rparr>),
               completed None] None)))
        (sample_backend ''gpt-4o'') [user_message ''hi''] None))) = 2000"
  by (simp add: run_defs usage_or_zero_def)

section \<open>Properties of create_backend\<close>

lemma OpenAIResponseBackend_init_returns:
  "(\<exists>b. OpenAIResponseBackend_init w cfg = Inr b)
     \<longleftrightarrow> openai_importable w
         \<and> (\<exists>k. k \<noteq> []
              \<and> (api_key cfg = Some k
                  \<or> ((api_key cfg = None \<or> api_key cfg = Some [])
                      \<and> getenv w ''OPENAI_API_KEY'' = Some k)))"
  by (cases "api_key cfg"; cases "getenv w ''OPENAI_API_KEY''")
    (auto simp: OpenAIResponseBackend_init_def Let_def)

text \<open>
  Claim C10 (as amended). The claim as written has \<open>create_backend\<close> return a backend for
  every provider that lower-cases to \<open>openai\<close>; the constructor it calls can raise. What
  holds: \<open>create_backend(provider, model, ...)\<close> calls the constructor of
  \<open>OpenAIResponseBackend\<close>, with the given model, if and only if \<open>provider\<close> compares
  case-insensitively equal to \<open>openai\<close>, and raises \<open>ValueError\<close> (unsupported provider) for
  every other provider string; it returns a backend if and only if, besides, the \<open>openai\<close>
  package can be imported and a non-empty API key is found in the \<open>api_key\<close> argument or in
  \<open>OPENAI_API_KEY\<close>.
\<close>

theorem create_backend_openai_only:
  "(lower provider_name = ''openai'' \<longrightarrow>
      create_backend w provider_name model_name kwargs
        = OpenAIResponseBackend_init w (kwargs\<lparr>cfg_model := Some model_name\<rparr>))
   \<and> (lower provider_name \<noteq> ''openai'' \<longrightarrow>
      create_backend w provider_name model_name kwargs
        = Inl (ValueError (''Unsupported provider: '' @ provider_name)))
   \<and> ((\<exists>b. create_backend w provider_name model_name kwargs = Inr b)
        \<longleftrightarrow> lower provider_name = ''openai''
            \<and> openai_importable w
            \<and> (\<exists>k. k \<noteq> []
                 \<and> (api_key kwargs = Some k
                     \<or> ((api_key kwargs = None \<or> api_key kwargs = Some [])
                         \<and> getenv w ''OPENAI_API_KEY'' = Some k))))"
proof (cases "lower provider_name = ''openai''")
  case True
  then have "create_backend w provider_name model_name kwargs
      = OpenAIResponseBackend_init w (kwargs\<lparr>cfg_model := Some model_name\<rparr>)"
    by (simp add: create_backend_def)
  with True
    OpenAIResponseBackend_init_returns [of w "kwargs\<lparr>cfg_model := Some model_name\<rparr>"]
  show ?thesis by simp
next
  case False
  then show ?thesis by (simp add: create_backend_def)
qed

theorem create_backend_openai_only_witness:
  "lower ''OpenAI'' = ''openai''
   \<and> create_backend (sample_world [''OPENAI_API_KEY'' \<mapsto> ''sk-env''] (Inl (OtherError [])))
        ''OpenAI'' ''gpt-4o'' no_kwargs
     = Inr \<lparr>config = no_kwargs\<lparr>cfg_model := Some ''gpt-4o''\<rparr>,
            token_usage = TokenUsage_new 0, self_model = ''gpt-4o''\<rparr>
   \<and> lower ''anthropic'' \<noteq> ''openai''
   \<and> create_backend (sample_world [''OPENAI_API_KEY'' \<mapsto> ''sk-env''] (Inl (OtherError [])))
        ''anthropic'' ''claude-sonnet-4-20250514'' no_kwargs
     = Inl (ValueError ''Unsupported provider: anthropic'')"
proof -
  let ?w = "sample_world [''OPENAI_API_KEY'' \<mapsto> ''sk-env''] (Inl (OtherError []))"
  have l1: "lower ''OpenAI'' = ''openai''"
    by code_simp
  have l2: "lower ''anthropic'' \<noteq> ''openai''"
    by code_simp
  have i: "OpenAIResponseBackend_init ?w (no_kwargs\<lparr>cfg_model := Some ''gpt-4o''\<rparr>)
      = Inr \<lparr>config = no_kwargs\<lparr>cfg_model := Some ''gpt-4o''\<rparr>,
             token_usage = TokenUsage_new 0, self_model = ''gpt-4o''\<rparr>"
    by (simp add: OpenAIResponseBackend_init_def sample_world_def no_kwargs_def)
  from create_backend_openai_only [of "''OpenAI''" ?w "''gpt-4o''" no_kwargs]
    create_backend_openai_only [of "''anthropic''" ?w "''claude-sonnet-4-20250514''" no_kwargs]
    l1 l2 i
  show ?thesis by simp
qed

text \<open>
  Claim C10 as written fails: with no \<open>api_key\<close> argument and no \<open>OPENAI_API_KEY\<close> in the
  environment, \<open>create_backend("openai", "gpt-4o")\<close> returns no backend; the constructor
  raises \<open>ValueError\<close>.
\<close>

theorem create_backend_openai_without_key:
  "lower ''openai'' = ''openai''
   \<and> create_backend (sample_world Map.empty (Inl (OtherError []))) ''openai'' ''gpt-4o''
        no_kwargs
     = Inl (ValueError ''OpenAI API key not found'')"
proof -
  have "lower ''openai'' = ''openai''"
    by code_simp
  then show ?thesis
    by (simp add: create_backend_def OpenAIResponseBackend_init_def sample_world_def
        no_kwargs_def)
qed

section \<open>Properties of the agent timeout scenario\<close>

lemma contains_self: "contains s s"
  by (cases s) simp_all

text \<open>With the fallback, an agent whose backend does not finish within the time limit ends
  its sequence with the \<open>error\<close> chunk and its degraded \<open>done\<close>; what it forwarded before was
  received within the limit.\<close>

lemma cut_off_fallback:
  assumes "enable_timeout_fallback cfg"
  shows "\<exists>t. cut_off cfg agent k u
      = Ended [time_limit_error agent t,
               \<lparr>a_elapsed = t, a_tokens = 0, a_chunk = done_with_status agent ''degraded''\<rparr>]"
  using assms by (simp add: cut_off_def Let_def)

lemma respond_cut_off:
  assumes fb: "enable_timeout_fallback cfg"
    and ne: "\<forall>t f. ends = Some (t, f) \<longrightarrow> agent_timeout_seconds cfg < t"
  shows "\<exists>pre t. respond cfg agent used arrivals ends
        = Ended (pre @ [time_limit_error agent t,
                 \<lparr>a_elapsed = t, a_tokens = 0, a_chunk = done_with_status agent ''degraded''\<rparr>])
      \<and> set pre \<subseteq> set arrivals
      \<and> (\<forall>a\<in>set pre. a_elapsed a \<le> agent_timeout_seconds cfg)"
proof (induction arrivals arbitrary: used)
  case Nil
  have "\<exists>k u. respond cfg agent used [] ends = cut_off cfg agent k u"
  proof (cases ends)
    case None
    then show ?thesis by auto
  next
    case (Some p)
    obtain t f where p: "p = (t, f)" by (cases p)
    with Some ne have "agent_timeout_seconds cfg < t" by simp
    then have "check t used (agent_timeout_seconds cfg, agent_max_tokens cfg) = Exceeded Time"
      by (simp add: check_def)
    with Some p show ?thesis by auto
  qed
  then obtain k u where "respond cfg agent used [] ends = cut_off cfg agent k u"
    by blast
  with cut_off_fallback [OF fb, of agent k u] obtain t where
    "respond cfg agent used [] ends
      = Ended ([] @ [time_limit_error agent t,
               \<lparr>a_elapsed = t, a_tokens = 0, a_chunk = done_with_status agent ''degraded''\<rparr>])"
    by auto
  then show ?case by (metis empty_iff empty_set empty_subsetI)
next
  case (Cons a rest)
  show ?case
  proof (cases "check (a_elapsed a) (used + a_tokens a)
      (agent_timeout_seconds cfg, agent_max_tokens cfg)")
    case (Exceeded k)
    with cut_off_fallback [OF fb, of agent k "a_elapsed a"] obtain t where
      "respond cfg agent used (a # rest) ends
        = Ended ([] @ [time_limit_error agent t,
                 \<lparr>a_elapsed = t, a_tokens = 0, a_chunk = done_with_status agent ''degraded''\<rparr>])"
      by auto
    then show ?thesis by (metis empty_iff empty_set empty_subsetI)
  next
    case Ok
    then have le: "a_elapsed a \<le> agent_timeout_seconds cfg"
      by (simp add: check_def split: if_splits)
    from Cons.IH [of "used + a_tokens a"] obtain pre t where
      r: "respond cfg agent (used + a_tokens a) rest ends
        = Ended (pre @ [time_limit_error agent t,
                 \<lparr>a_elapsed = t, a_tokens = 0, a_chunk = done_with_status agent ''degraded''\<rparr>])"
        "set pre \<subseteq> set rest" "\<forall>a\<in>set pre. a_elapsed a \<le> agent_timeout_seconds cfg"
      by blast
    have "respond cfg agent used (a # rest) ends
        = Ended ((a # pre) @ [time_limit_error agent t,
                 \<lparr>a_elapsed = t, a_tokens = 0, a_chunk = done_with_status agent ''degraded''\<rparr>])"
      using Ok r(1) by simp
    moreover have "set (a # pre) \<subseteq> set (a # rest)"
      using r(2) by auto
    moreover have "\<forall>x\<in>set (a # pre). a_elapsed x \<le> agent_timeout_seconds cfg"
      using r(3) le by simp
    ultimately show ?thesis by blast
  qed
qed

lemma error_then_degraded_doneI:
  assumes "type e = ''error''" and "error e = Some msg" and "contains msg ''time limit exceeded''"
    and "type d = ''done''" and "status d = Some ''degraded''"
    and "\<forall>c\<in>set (relayed @ [e] @ mid). type c \<noteq> ''done''"
  shows "error_then_degraded_done (relayed @ [e] @ mid @ [d])"
  unfolding error_then_degraded_done_def using assms by blast

lemma error_then_degraded_done_Cons:
  assumes "type c \<noteq> ''done''" and "error_then_degraded_done out"
  shows "error_then_degraded_done (c # out)"
proof -
  from assms(2) obtain relayed e mid d where
    o: "out = relayed @ [e] @ mid @ [d]" "type e = ''error''"
      "\<exists>msg. error e = Some msg \<and> contains msg ''time limit exceeded''"
      "type d = ''done''" "status d = Some ''degraded''"
      "\<forall>c\<in>set (relayed @ [e] @ mid). type c \<noteq> ''done''"
    unfolding error_then_degraded_done_def by blast
  from o(3) obtain msg where m: "error e = Some msg" "contains msg ''time limit exceeded''"
    by blast
  have "\<forall>x\<in>set ((c # relayed) @ [e] @ mid). type x \<noteq> ''done''"
    using o(6) assms(1) by simp
  from error_then_degraded_doneI [OF o(2) m o(4) o(5) this] show ?thesis
    by (simp add: o(1))
qed

text \<open>Whatever the global budget does while the chunks of such an agent are relayed, the
  merged stream reports the time limit and ends with one degraded \<open>done\<close>.\<close>

lemma coordinate_cut_off:
  assumes fb: "enable_timeout_fallback cfg"
    and nd: "\<forall>a\<in>set pre. type (a_chunk a) \<noteq> ''done''"
  shows "\<exists>out. coordinate cfg agent used failed
        (pre @ [time_limit_error agent t,
                \<lparr>a_elapsed = t, a_tokens = 0, a_chunk = done_with_status agent ''degraded''\<rparr>]) hard
        = Ended out \<and> error_then_degraded_done out"
  using nd
proof (induction pre arbitrary: used failed)
  case Nil
  let ?e = "tagged agent (a_chunk (time_limit_error agent t))"
  let ?o = "a_chunk (time_limit_error ''orchestrator'' t)"
  let ?d = "done_with_status ''orchestrator'' ''degraded''"
  have e: "type ?e = ''error''" "error ?e = Some ''time limit exceeded''"
    "type ?o = ''error''" "a_elapsed (time_limit_error agent t) = t"
    "a_tokens (time_limit_error agent t) = 0"
    "type (a_chunk (time_limit_error agent t)) = ''error''"
    by (simp_all add: time_limit_error_def tagged_def)
  have d: "type ?d = ''done''" "status ?d = Some ''degraded''"
    "type (done_with_status agent ''degraded'') = ''done''"
    "status (done_with_status agent ''degraded'') \<noteq> Some ''completed''"
    by (simp_all add: done_with_status_def)
  have c: "contains ''time limit exceeded'' ''time limit exceeded''"
    by (rule contains_self)
  show ?case
  proof (cases "check t used (orchestrator_timeout_seconds cfg, orchestrator_max_tokens cfg)")
    case (Exceeded k)
    then have "coordinate cfg agent used failed
        ([] @ [time_limit_error agent t,
               \<lparr>a_elapsed = t, a_tokens = 0, a_chunk = done_with_status agent ''degraded''\<rparr>]) hard
        = Ended ([] @ [?e] @ [?o] @ [?d])"
      using fb e by simp
    moreover have "error_then_degraded_done ([] @ [?e] @ [?o] @ [?d])"
      by (rule error_then_degraded_doneI [OF e(1) e(2) c d(1) d(2)]) (simp add: e)
    ultimately show ?thesis by blast
  next
    case Ok
    then have "coordinate cfg agent used failed
        ([] @ [time_limit_error agent t,
               \<lparr>a_elapsed = t, a_tokens = 0, a_chunk = done_with_status agent ''degraded''\<rparr>]) hard
        = Ended ([] @ [?e] @ [] @ [?d])"
      using e d by simp
    moreover have "error_then_degraded_done ([] @ [?e] @ [] @ [?d])"
      by (rule error_then_degraded_doneI [OF e(1) e(2) c d(1) d(2)]) (simp add: e)
    ultimately show ?thesis by blast
  qed
next
  case (Cons a pre)
  let ?tail = "[time_limit_error agent t,
      \<lparr>a_elapsed = t, a_tokens = 0, a_chunk = done_with_status agent ''degraded''\<rparr>]"
  let ?o = "a_chunk (time_limit_error ''orchestrator'' (a_elapsed a))"
  let ?d = "done_with_status ''orchestrator'' ''degraded''"
  from Cons.prems have a: "type (a_chunk a) \<noteq> ''done''"
    and rest: "\<forall>x\<in>set pre. type (a_chunk x) \<noteq> ''done''"
    by simp_all
  from a have ta: "type (tagged agent (a_chunk a)) \<noteq> ''done''"
    by (simp add: tagged_def)
  show ?case
  proof (cases "check (a_elapsed a) (used + a_tokens a)
      (orchestrator_timeout_seconds cfg, orchestrator_max_tokens cfg)")
    case (Exceeded k)
    have o: "type ?o = ''error''" "error ?o = Some ''time limit exceeded''"
      by (simp_all add: time_limit_error_def)
    have d: "type ?d = ''done''" "status ?d = Some ''degraded''"
      by (simp_all add: done_with_status_def)
    from Exceeded have "coordinate cfg agent used failed ((a # pre) @ ?tail) hard
        = Ended ([tagged agent (a_chunk a)] @ [?o] @ [] @ [?d])"
      using fb a by simp
    moreover have "error_then_degraded_done ([tagged agent (a_chunk a)] @ [?o] @ [] @ [?d])"
      by (rule error_then_degraded_doneI [OF o(1) o(2) contains_self d(1) d(2)]) (simp add: ta o)
    ultimately show ?thesis by blast
  next
    case Ok
    from Cons.IH [OF rest, of "used + a_tokens a" "failed \<or> type (a_chunk a) = ''error''"]
    obtain out where
      ih: "coordinate cfg agent (used + a_tokens a) (failed \<or> type (a_chunk a) = ''error'')
          (pre @ ?tail) hard = Ended out" "error_then_degraded_done out"
      by blast
    from Ok have "coordinate cfg agent used failed ((a # pre) @ ?tail) hard
        = Ended (tagged agent (a_chunk a) # out)"
      using a ih(1) by simp
    moreover have "error_then_degraded_done (tagged agent (a_chunk a) # out)"
      by (rule error_then_degraded_done_Cons [OF ta ih(2)])
    ultimately show ?thesis by blast
  qed
qed

text \<open>
  Claim C7. In the run of \<open>test_agent_timeout\<close> (agent timeout 10 seconds, agent maximum
  1000 tokens, fallback enabled), in front of a backend that never completes within 10
  seconds, that is, from which no \<open>done\<close> chunk is received within 10 seconds and whose
  stream is not over within 10 seconds (it may be silent, stall, or go on writing; a
  backend that has ended or raised by then is another scenario of the specification), the
  merged output stream holds an \<open>error\<close> chunk whose message contains \<open>time limit
  exceeded\<close>, followed by a \<open>done\<close> chunk with a degraded status. The orchestrator and the
  agent are the ones modelled from the specification.
\<close>

theorem agent_timeout_cut_off:
  assumes not_done: "\<forall>a\<in>set arrivals. type (a_chunk a) = ''done'' \<longrightarrow> 10 < a_elapsed a"
    and not_over: "\<forall>t f. ends = Some (t, f) \<longrightarrow> 10 < t"
  shows "\<exists>out. chat_simple test_agent_timeout_config arrivals ends = Ended out
      \<and> error_then_degraded_done out"
proof -
  let ?cfg = test_agent_timeout_config
  have fb: "enable_timeout_fallback ?cfg" and t: "agent_timeout_seconds ?cfg = 10"
    by (simp_all add: test_agent_timeout_config_def)
  from not_over have "\<forall>t f. ends = Some (t, f) \<longrightarrow> agent_timeout_seconds ?cfg < t"
    by (simp add: t)
  from respond_cut_off [OF fb this, of "''test_agent''" 0 arrivals] obtain pre u where
    r: "respond ?cfg ''test_agent'' 0 arrivals ends
        = Ended (pre @ [time_limit_error ''test_agent'' u,
            \<lparr>a_elapsed = u, a_tokens = 0, a_chunk = done_with_status ''test_agent'' ''degraded''\<rparr>])"
      "set pre \<subseteq> set arrivals" "\<forall>a\<in>set pre. a_elapsed a \<le> agent_timeout_seconds ?cfg"
    by blast
  have "\<forall>a\<in>set pre. type (a_chunk a) \<noteq> ''done''"
    using r(2,3) not_done t by fastforce
  from coordinate_cut_off [OF fb this, of "''test_agent''" 0 False u False] r(1)
  show ?thesis
    by (simp add: chat_simple_def)
qed

theorem agent_timeout_cut_off_witness:
  "chat_simple test_agent_timeout_config slow_backend None
     = Ended [tagged ''test_agent'' (a_chunk (content_arrival 2 100 ''The history'')),
              tagged ''test_agent'' (a_chunk (content_arrival 7 300 '' of artificial'')),
              a_chunk (time_limit_error ''test_agent'' 10),
              done_with_status ''orchestrator'' ''degraded'']
   \<and> error_then_degraded_done
        [tagged ''test_agent'' (a_chunk (content_arrival 2 100 ''The history'')),
         tagged ''test_agent'' (a_chunk (content_arrival 7 300 '' of artificial'')),
         a_chunk (time_limit_error ''test_agent'' 10),
         done_with_status ''orchestrator'' ''degraded'']
   \<and> chat_simple test_agent_timeout_config [] None
     = Ended [a_chunk (time_limit_error ''test_agent'' 10),
              done_with_status ''orchestrator'' ''degraded'']
   \<and> error_then_degraded_done
        [a_chunk (time_limit_error ''test_agent'' 10),
         done_with_status ''orchestrator'' ''degraded'']
   \<and> chat_simple test_agent_timeout_config [content_arrival 7 300 ''The history'']
        (Some (15, None))
     = Ended [tagged ''test_agent'' (a_chunk (content_arrival 7 300 ''The history'')),
              a_chunk (time_limit_error ''test_agent'' 10),
              done_with_status ''orchestrator'' ''degraded'']"
proof -
  have h1: "\<forall>a\<in>set slow_backend. type (a_chunk a) = ''done'' \<longrightarrow> 10 < a_elapsed a"
    by (simp add: slow_backend_def content_arrival_def)
  have h2: "\<forall>t f. (None :: stream_end) = Some (t, f) \<longrightarrow> 10 < t"
    by simp
  have h3: "\<forall>a\<in>set ([] :: arrival list). type (a_chunk a) = ''done'' \<longrightarrow> 10 < a_elapsed a"
    by simp
  have run1: "chat_simple test_agent_timeout_config slow_backend None
      = Ended [tagged ''test_agent'' (a_chunk (content_arrival 2 100 ''The history'')),
               tagged ''test_agent'' (a_chunk (content_arrival 7 300 '' of artificial'')),
               a_chunk (time_limit_error ''test_agent'' 10),
               done_with_status ''orchestrator'' ''degraded'']"
    by (simp add: chat_simple_def slow_backend_def content_arrival_def tagged_def cut_off_def
        test_agent_timeout_config_def check_def time_limit_error_def done_with_status_def)
  have run2: "chat_simple test_agent_timeout_config [] None
      = Ended [a_chunk (time_limit_error ''test_agent'' 10),
               done_with_status ''orchestrator'' ''degraded'']"
    by (simp add: chat_simple_def tagged_def cut_off_def
        test_agent_timeout_config_def check_def time_limit_error_def done_with_status_def)
  have run3: "chat_simple test_agent_timeout_config [content_arrival 7 300 ''The history'']
        (Some (15, None))
      = Ended [tagged ''test_agent'' (a_chunk (content_arrival 7 300 ''The history'')),
               a_chunk (time_limit_error ''test_agent'' 10),
               done_with_status ''orchestrator'' ''degraded'']"
    by (simp add: chat_simple_def content_arrival_def tagged_def cut_off_def
        test_agent_timeout_config_def check_def time_limit_error_def done_with_status_def)
  from agent_timeout_cut_off [OF h1 h2] agent_timeout_cut_off [OF h3 h2] run1 run2 run3
  show ?thesis
    by simp
qed

end
